theory Spec2Isabelle
  imports Main
begin

section \<open>Python values, exceptions and configuration\<close>

text \<open>
  The handler of \<^verbatim>\<open>rp_handler.py\<close> returns Python dictionaries whose values are
  \<^verbatim>\<open>None\<close>, strings, integers or nested dictionaries. A dictionary literal is kept as the list of
  its items in source order.
\<close>

datatype pyval = PyNone | PyStr string | PyInt int | PyDict "(string \<times> pyval) list"

type_synonym pydict = "(string \<times> pyval) list"

text \<open>
  An exception is its class and the text that \<^verbatim>\<open>str(e)\<close> gives. Every class below is a
  subclass of \<^verbatim>\<open>Exception\<close>, so \<^verbatim>\<open>except Exception\<close> catches all of them, and
  \<^verbatim>\<open>except subprocess.TimeoutExpired\<close> catches the first only.
\<close>

datatype exn_class = TimeoutExpired | OSError | AttributeError | OverflowError | OtherException

datatype exn = Exn exn_class string

fun exn_class_of :: "exn \<Rightarrow> exn_class" where
  "exn_class_of (Exn c m) = c"

fun str_exn :: "exn \<Rightarrow> string" where
  "str_exn (Exn c m) = m"

text \<open>
  The module-level configuration, read once from the process environment. The three
  \<^verbatim>\<open>RUNPOD_*\<close> fields are the environment variables that \<^verbatim>\<open>get_public_ip\<close> and
  \<^verbatim>\<open>get_tcp_port\<close> look up (\<open>None\<close> when the variable is not set).
\<close>

record config =
  PERSONAPLEX_PORT :: nat
  SSL_DIR :: string
  HF_TOKEN :: string
  CPU_OFFLOAD :: bool
  RUNPOD_PUBLIC_IP :: "string option"
  RUNPOD_POD_IP :: "string option"
  RUNPOD_TCP_PORT :: "string option"

fun str_nat :: "nat \<Rightarrow> string" where
  "str_nat n = (if n < 10 then [''0123456789'' ! n]
                else str_nat (n div 10) @ [''0123456789'' ! (n mod 10)])"

declare str_nat.simps [simp del]

definition get_public_ip :: "config \<Rightarrow> string" where
  "get_public_ip cfg =
     (case RUNPOD_PUBLIC_IP cfg of
        Some ip \<Rightarrow> ip
      | None \<Rightarrow> (case RUNPOD_POD_IP cfg of Some ip \<Rightarrow> ip | None \<Rightarrow> ''localhost''))"

definition get_tcp_port :: "config \<Rightarrow> string" where
  "get_tcp_port cfg =
     (case RUNPOD_TCP_PORT cfg of
        Some p \<Rightarrow> p
      | None \<Rightarrow> str_nat (PERSONAPLEX_PORT cfg))"

definition server_cmd :: "config \<Rightarrow> string list" where
  "server_cmd cfg =
     [''/app/moshi/.venv/bin/python'', ''-m'', ''moshi.server'',
      ''--ssl'', SSL_DIR cfg, ''--host'', ''0.0.0.0'',
      ''--port'', str_nat (PERSONAPLEX_PORT cfg)]
     @ (if CPU_OFFLOAD cfg then [''--cpu-offload''] else [])"

text \<open>
  A job as the platform hands it over: its \<^verbatim>\<open>id\<close> and, when the \<^verbatim>\<open>input\<close>
  dictionary carries one, the \<^verbatim>\<open>session_id\<close> entry. Every job has an \<^verbatim>\<open>id\<close>, and its
  \<^verbatim>\<open>input\<close>, when present, is a dictionary: the lookups of the first two lines of the
  handler do not fail.
\<close>

record job =
  job_id :: string
  input_session_id :: "string option"

section \<open>The operating system as an oracle\<close>

text \<open>
  Everything the handler cannot decide itself is fixed in advance by an environment:
  \<^item> \<open>spawn_result k\<close>: what the \<open>k\<close>-th call of \<^verbatim>\<open>subprocess.Popen\<close> does, \<open>None\<close> for
    success and \<open>Some e\<close> when it raises \<open>e\<close>. The process created by call \<open>k\<close> has
    process id \<open>k\<close>.
  \<^item> \<open>proc_exit p\<close>: the time (milliseconds on the clock below) at which process \<open>p\<close>
    exits in this run and its return code, \<open>None\<close> when it never exits.
  \<^item> \<open>connect_result k\<close> and \<open>connect_duration k\<close>: what the \<open>k\<close>-th connection attempt
    (socket creation and \<^verbatim>\<open>connect_ex\<close>) yields and how many milliseconds it takes.
  \<^item> \<open>signal_result k\<close>: whether the \<open>k\<close>-th call of \<^verbatim>\<open>os.kill\<close> raises.
\<close>

datatype attempt = Returns nat | RaisesSocketError

record env =
  spawn_result :: "nat \<Rightarrow> exn option"
  proc_exit :: "nat \<Rightarrow> (nat \<times> int) option"
  connect_result :: "nat \<Rightarrow> attempt"
  connect_duration :: "nat \<Rightarrow> nat"
  signal_result :: "nat \<Rightarrow> exn option"

datatype signal = SIGTERM | SIGKILL

datatype event =
    Print string
  | Spawn nat
  | SpawnFailed
  | Poll nat
  | Signal signal nat
  | SignalFailed signal nat
  | ProcWait nat nat
  | WaitForServer int
  | WaitReturned int bool
  | Connect nat
  | Sleep nat
  | ProgressUpdate pydict

text \<open>
  A \<^verbatim>\<open>Popen\<close> object: the process id and the cached \<^verbatim>\<open>returncode\<close> attribute.
\<close>

record handle =
  pid :: nat
  returncode :: "int option"

text \<open>
  The mutable state: the clock that \<^verbatim>\<open>time.time()\<close> reads (in whole milliseconds; a
  sleep advances it by exactly the time asked for, and only sleeping, connecting and
  waiting for a process take time), the
  number of calls made so far to each oracle, the global \<^verbatim>\<open>server_process\<close>, and the
  time-stamped record of every effect performed.
\<close>

record world =
  clock :: nat
  n_spawns :: nat
  n_connects :: nat
  n_signals :: nat
  server_process :: "handle option"
  trace :: "(nat \<times> event) list"

definition log :: "event \<Rightarrow> world \<Rightarrow> world" where
  "log e w = w\<lparr>trace := trace w @ [(clock w, e)]\<rparr>"

definition print :: "string \<Rightarrow> world \<Rightarrow> world" where
  "print s w = log (Print s) w"

definition sleep :: "nat \<Rightarrow> world \<Rightarrow> world" where
  "sleep secs w = (log (Sleep secs) w)\<lparr>clock := clock w + 1000 * secs\<rparr>"

definition exit_status :: "env \<Rightarrow> nat \<Rightarrow> nat \<Rightarrow> int option" where
  "exit_status e p t =
     (case proc_exit e p of
        None \<Rightarrow> None
      | Some (te, rc) \<Rightarrow> if te \<le> t then Some rc else None)"

section \<open>The readiness prober\<close>

definition connect_attempt :: "env \<Rightarrow> world \<Rightarrow> attempt \<times> world" where
  "connect_attempt e w =
     (connect_result e (n_connects w),
      (log (Connect (n_connects w)) w)
        \<lparr>clock := clock w + connect_duration e (n_connects w),
         n_connects := Suc (n_connects w)\<rparr>)"

function wait_loop :: "env \<Rightarrow> nat \<Rightarrow> int \<Rightarrow> world \<Rightarrow> bool \<times> world" where
  "wait_loop e start_time timeout w =
     (if int (clock w) - int start_time < 1000 * timeout then
        (case connect_attempt e w of
           (Returns result, w1) \<Rightarrow>
             if result = 0 then (True, w1)
             else wait_loop e start_time timeout (sleep 1 w1)
         | (RaisesSocketError, w1) \<Rightarrow>
             wait_loop e start_time timeout (sleep 1 w1))
      else (False, w))"
  by pat_completeness auto
termination
  by (relation "measure (\<lambda>(e, start_time, timeout, w).
          nat (int start_time + 1000 * timeout - int (clock w)))")
     (auto simp: connect_attempt_def sleep_def log_def)

declare wait_loop.simps [simp del]

definition wait_for_server :: "env \<Rightarrow> int \<Rightarrow> world \<Rightarrow> bool \<times> world" where
  "wait_for_server e timeout w =
     wait_loop e (clock w) timeout (log (WaitForServer timeout) w)"

text \<open>
  The handler calls \<^verbatim>\<open>wait_for_server\<close> with the default host and port, \<^verbatim>\<open>localhost\<close>
  and \<^verbatim>\<open>PERSONAPLEX_PORT\<close>. For a port in the range 0 to 65535 the call is the function
  above. For a larger port \<^verbatim>\<open>connect_ex\<close> raises \<^verbatim>\<open>OverflowError\<close>, which is not a
  \<^verbatim>\<open>socket.error\<close>: an attempt that gets as far as the port check (the oracle's
  \<open>Returns\<close>) leaves the function by that exception, and only an attempt that fails
  before it (no socket, no address: the oracle's \<open>RaisesSocketError\<close>) is retried. A
  negative port raises the same error; the port is a natural number here, so that case
  is not represented. The record of effects also keeps what the call returned.
\<close>

definition port_overflow :: exn where
  "port_overflow = Exn OverflowError ''connect_ex(): port must be 0-65535.''"

function wait_loop_bad_port :: "env \<Rightarrow> nat \<Rightarrow> int \<Rightarrow> world \<Rightarrow> (exn + bool) \<times> world" where
  "wait_loop_bad_port e start_time timeout w =
     (if int (clock w) - int start_time < 1000 * timeout then
        (case connect_attempt e w of
           (Returns result, w1) \<Rightarrow> (Inl port_overflow, w1)
         | (RaisesSocketError, w1) \<Rightarrow>
             wait_loop_bad_port e start_time timeout (sleep 1 w1))
      else (Inr False, w))"
  by pat_completeness auto
termination
  by (relation "measure (\<lambda>(e, start_time, timeout, w).
          nat (int start_time + 1000 * timeout - int (clock w)))")
     (auto simp: connect_attempt_def sleep_def log_def)

declare wait_loop_bad_port.simps [simp del]

definition wait_for_server_default :: "env \<Rightarrow> config \<Rightarrow> int \<Rightarrow> world \<Rightarrow> (exn + bool) \<times> world" where
  "wait_for_server_default e cfg timeout w =
     (if PERSONAPLEX_PORT cfg \<le> 65535 then
        (case wait_for_server e timeout w of
           (ready, w1) \<Rightarrow> (Inr ready, log (WaitReturned timeout ready) w1))
      else
        (case wait_loop_bad_port e (clock w) timeout (log (WaitForServer timeout) w) of
           (Inl x, w1) \<Rightarrow> (Inl x, w1)
         | (Inr ready, w1) \<Rightarrow> (Inr ready, log (WaitReturned timeout ready) w1)))"

section \<open>The launcher and the process handle\<close>

text \<open>
  \<^verbatim>\<open>start_personaplex_server\<close> assigns the global only when \<^verbatim>\<open>Popen\<close> returns: when it
  raises, \<^verbatim>\<open>server_process\<close> keeps the handle it had.
\<close>

definition start_personaplex_server :: "env \<Rightarrow> config \<Rightarrow> world \<Rightarrow> (exn + handle) \<times> world" where
  "start_personaplex_server e cfg w =
     (case spawn_result e (n_spawns w) of
        Some x \<Rightarrow> (Inl x, (log SpawnFailed w)\<lparr>n_spawns := Suc (n_spawns w)\<rparr>)
      | None \<Rightarrow>
          (let p = \<lparr>pid = n_spawns w, returncode = None\<rparr>
           in (Inr p, (log (Spawn (n_spawns w)) w)
                        \<lparr>n_spawns := Suc (n_spawns w), server_process := Some p\<rparr>)))"

text \<open>
  The methods of the object bound to \<^verbatim>\<open>server_process\<close>. \<^verbatim>\<open>poll\<close> returns the cached
  return code when there is one and otherwise asks the operating system, caching what it
  learns. \<^verbatim>\<open>terminate\<close> and \<^verbatim>\<open>kill\<close> are \<^verbatim>\<open>send_signal\<close>, which polls first and sends
  nothing to a process that has exited (CPython 3.9 and later). \<^verbatim>\<open>wait\<close> blocks until the process exits or the
  timeout (in seconds) runs out, and then raises \<^verbatim>\<open>TimeoutExpired\<close>. A method called
  on \<^verbatim>\<open>None\<close> raises \<^verbatim>\<open>AttributeError\<close>.
\<close>

definition internal_poll :: "env \<Rightarrow> handle \<Rightarrow> nat \<Rightarrow> handle" where
  "internal_poll e h t =
     (case returncode h of
        Some rc \<Rightarrow> h
      | None \<Rightarrow> h\<lparr>returncode := exit_status e (pid h) t\<rparr>)"

definition none_has_no_attribute :: "string \<Rightarrow> exn" where
  "none_has_no_attribute m =
     Exn AttributeError
       ([CHR 0x27] @ ''NoneType'' @ [CHR 0x27] @ '' object has no attribute ''
        @ [CHR 0x27] @ m @ [CHR 0x27])"

definition poll :: "env \<Rightarrow> world \<Rightarrow> (exn + int option) \<times> world" where
  "poll e w =
     (case server_process w of
        None \<Rightarrow> (Inl (none_has_no_attribute ''poll''), w)
      | Some h \<Rightarrow>
          (let h1 = internal_poll e h (clock w)
           in (Inr (returncode h1), (log (Poll (pid h)) w)\<lparr>server_process := Some h1\<rparr>)))"

definition send_signal :: "env \<Rightarrow> signal \<Rightarrow> handle \<Rightarrow> world \<Rightarrow> (exn + unit) \<times> world" where
  "send_signal e sig h w =
     (let h1 = internal_poll e h (clock w); w1 = w\<lparr>server_process := Some h1\<rparr>
      in case returncode h1 of
           Some rc \<Rightarrow> (Inr (), w1)
         | None \<Rightarrow>
             (case signal_result e (n_signals w) of
                Some x \<Rightarrow> (Inl x, (log (SignalFailed sig (pid h)) w1)\<lparr>n_signals := Suc (n_signals w)\<rparr>)
              | None \<Rightarrow> (Inr (), (log (Signal sig (pid h)) w1)\<lparr>n_signals := Suc (n_signals w)\<rparr>)))"

definition terminate :: "env \<Rightarrow> world \<Rightarrow> (exn + unit) \<times> world" where
  "terminate e w =
     (case server_process w of
        None \<Rightarrow> (Inl (none_has_no_attribute ''terminate''), w)
      | Some h \<Rightarrow> send_signal e SIGTERM h w)"

definition kill :: "env \<Rightarrow> world \<Rightarrow> (exn + unit) \<times> world" where
  "kill e w =
     (case server_process w of
        None \<Rightarrow> (Inl (none_has_no_attribute ''kill''), w)
      | Some h \<Rightarrow> send_signal e SIGKILL h w)"

definition timeout_expired :: exn where
  "timeout_expired = Exn TimeoutExpired ''timed out''"

definition wait :: "env \<Rightarrow> nat \<Rightarrow> world \<Rightarrow> (exn + int) \<times> world" where
  "wait e timeout w =
     (case server_process w of
        None \<Rightarrow> (Inl (none_has_no_attribute ''wait''), w)
      | Some h \<Rightarrow>
          (let w1 = log (ProcWait (pid h) timeout) w
           in case returncode h of
                Some rc \<Rightarrow> (Inr rc, w1)
              | None \<Rightarrow>
                  (case proc_exit e (pid h) of
                     None \<Rightarrow> (Inl timeout_expired, w1\<lparr>clock := clock w + 1000 * timeout\<rparr>)
                   | Some (te, rc) \<Rightarrow>
                       if te \<le> clock w + 1000 * timeout
                       then (Inr rc, w1\<lparr>clock := max (clock w) te,
                                       server_process := Some (h\<lparr>returncode := Some rc\<rparr>)\<rparr>)
                       else (Inl timeout_expired, w1\<lparr>clock := clock w + 1000 * timeout\<rparr>))))"

text \<open>
  The condition \<^verbatim>\<open>server_process and server_process.poll() is None\<close>, which guards both
  the monitoring loop and the cleanup. A \<^verbatim>\<open>Popen\<close> object is always truthy.
\<close>

definition server_running :: "env \<Rightarrow> world \<Rightarrow> bool \<times> world" where
  "server_running e w =
     (case server_process w of
        None \<Rightarrow> (False, w)
      | Some h \<Rightarrow>
          (case poll e w of
             (Inr rc, w1) \<Rightarrow> (rc = None, w1)
           | (Inl x, w1) \<Rightarrow> (False, w1)))"

section \<open>The health monitor, the cleanup and the handler\<close>

text \<open>
  The body of the branch taken when the liveness probe fails: signal the current process,
  launch a replacement, wait for it. What the last wait returns is discarded.
\<close>

definition restart :: "env \<Rightarrow> config \<Rightarrow> world \<Rightarrow> (exn + unit) \<times> world" where
  "restart e cfg w =
     (case terminate e (print ''[PersonaPlex] Server health check failed, restarting...'' w) of
        (Inl x, w1) \<Rightarrow> (Inl x, w1)
      | (Inr u, w1) \<Rightarrow>
          (case start_personaplex_server e cfg w1 of
             (Inl x, w2) \<Rightarrow> (Inl x, w2)
           | (Inr p, w2) \<Rightarrow>
               (case wait_for_server_default e cfg 60 w2 of
                  (Inl x, w3) \<Rightarrow> (Inl x, w3)
                | (Inr ready, w3) \<Rightarrow> (Inr (), w3))))"

text \<open>
  The \<^verbatim>\<open>while\<close> loop of the handler. It has no bound of its own, so the model takes the
  number of times the loop condition may be evaluated, and \<open>None\<close> says that this was not
  enough for the loop to end. \<open>Some (Inl x, w)\<close> is the loop left by exception \<open>x\<close>.
  Cancellation of the job by the platform is not represented.
\<close>

fun monitor :: "nat \<Rightarrow> env \<Rightarrow> config \<Rightarrow> world \<Rightarrow> ((exn + unit) \<times> world) option" where
  "monitor 0 e cfg w = None"
| "monitor (Suc n) e cfg w =
     (case server_running e w of
        (False, w1) \<Rightarrow> Some (Inr (), w1)
      | (True, w1) \<Rightarrow>
          (case wait_for_server_default e cfg 5 (sleep 5 w1) of
             (Inl x, w2) \<Rightarrow> Some (Inl x, w2)
           | (Inr True, w2) \<Rightarrow> monitor n e cfg w2
           | (Inr False, w2) \<Rightarrow>
               (case restart e cfg w2 of
                  (Inl x, w3) \<Rightarrow> Some (Inl x, w3)
                | (Inr u, w3) \<Rightarrow> monitor n e cfg w3)))"

definition cleanup :: "env \<Rightarrow> world \<Rightarrow> (exn + unit) \<times> world" where
  "cleanup e w =
     (case server_running e w of
        (False, w1) \<Rightarrow> (Inr (), w1)
      | (True, w1) \<Rightarrow>
          (case terminate e (print ''[PersonaPlex] Shutting down server...'' w1) of
             (Inl x, w2) \<Rightarrow> (Inl x, w2)
           | (Inr u, w2) \<Rightarrow>
               (case wait e 10 w2 of
                  (Inr rc, w3) \<Rightarrow> (Inr (), w3)
                | (Inl x, w3) \<Rightarrow>
                    if exn_class_of x = TimeoutExpired then kill e w3 else (Inl x, w3))))"

definition pyval_of_returncode :: "int option \<Rightarrow> pyval" where
  "pyval_of_returncode rc = (case rc of None \<Rightarrow> PyNone | Some c \<Rightarrow> PyInt c)"

definition stopped_result :: "world \<Rightarrow> string \<Rightarrow> pydict" where
  "stopped_result w session_id =
     [(''status'', PyStr ''stopped''),
      (''reason'', PyStr ''server_exited''),
      (''return_code'',
         (case server_process w of
            Some h \<Rightarrow> pyval_of_returncode (returncode h)
          | None \<Rightarrow> PyInt (- 1))),
      (''session_id'', PyStr session_id)]"

definition error_result :: "exn \<Rightarrow> string \<Rightarrow> pydict" where
  "error_result x session_id =
     [(''status'', PyStr ''error''),
      (''error'', PyStr (str_exn x)),
      (''session_id'', PyStr session_id)]"

definition start_failed_result :: "exn \<Rightarrow> pydict" where
  "start_failed_result x =
     [(''error'', PyStr (''Failed to start PersonaPlex server: '' @ str_exn x))]"

definition start_timeout_result :: pydict where
  "start_timeout_result =
     [(''error'', PyStr ''PersonaPlex server failed to start within timeout'')]"

definition connection_info :: "config \<Rightarrow> string \<Rightarrow> pydict" where
  "connection_info cfg session_id =
     (let public_ip = get_public_ip cfg; public_port = get_tcp_port cfg
      in [(''status'', PyStr ''running''),
          (''session_id'', PyStr session_id),
          (''connection'',
             PyDict [(''protocol'', PyStr ''wss''),
                   (''host'', PyStr public_ip),
                   (''port'', PyStr public_port),
                   (''url'', PyStr (''wss://'' @ public_ip @ '':'' @ public_port))]),
          (''server_port'', PyInt (int (PERSONAPLEX_PORT cfg))),
          (''message'', PyStr ''PersonaPlex server is running. Connect via WebSocket.'')])"

text \<open>
  The \<^verbatim>\<open>try\<close> statement of the handler. The value of a \<^verbatim>\<open>return\<close> is computed before
  the \<^verbatim>\<open>finally\<close> block runs, and an exception raised in the \<^verbatim>\<open>finally\<close> block
  replaces it.
\<close>

definition session :: "nat \<Rightarrow> env \<Rightarrow> config \<Rightarrow> string \<Rightarrow> world \<Rightarrow> ((exn + pydict) \<times> world) option" where
  "session n e cfg session_id w =
     (case monitor n e cfg w of
        None \<Rightarrow> None
      | Some (r, w1) \<Rightarrow>
          (let primary = (case r of
                            Inr u \<Rightarrow> stopped_result w1 session_id
                          | Inl x \<Rightarrow> error_result x session_id)
           in case cleanup e w1 of
                (Inl x, w2) \<Rightarrow> Some (Inl x, w2)
              | (Inr u, w2) \<Rightarrow> Some (Inr primary, w2)))"

definition handler :: "nat \<Rightarrow> env \<Rightarrow> config \<Rightarrow> job \<Rightarrow> world \<Rightarrow> ((exn + pydict) \<times> world) option" where
  "handler n e cfg j w =
     (let session_id = (case input_session_id j of Some s \<Rightarrow> s | None \<Rightarrow> job_id j);
          w0 = print (''[PersonaPlex] Starting server for session: '' @ session_id) w
      in case start_personaplex_server e cfg w0 of
           (Inl x, w1) \<Rightarrow> Some (Inr (start_failed_result x), w1)
         | (Inr p, w1) \<Rightarrow>
             (case wait_for_server_default e cfg 120
                     (print (''[PersonaPlex] Waiting for server on port ''
                             @ str_nat (PERSONAPLEX_PORT cfg) @ ''...'') w1) of
                (Inl x, w2) \<Rightarrow> Some (Inl x, w2)
              | (Inr False, w2) \<Rightarrow>
                  (case server_process w2 of
                     None \<Rightarrow> Some (Inr start_timeout_result, w2)
                   | Some h \<Rightarrow>
                       (case terminate e w2 of
                          (Inl x, w3) \<Rightarrow> Some (Inl x, w3)
                        | (Inr u, w3) \<Rightarrow> Some (Inr start_timeout_result, w3)))
              | (Inr True, w2) \<Rightarrow>
                  (let info = connection_info cfg session_id;
                       w3 = print ''[PersonaPlex] Server is ready!'' w2;
                       w4 = log (ProgressUpdate info) w3;
                       w5 = print (''[PersonaPlex] Server running at wss://''
                                   @ get_public_ip cfg @ '':'' @ get_tcp_port cfg) w4;
                       w6 = print ''[PersonaPlex] Waiting for cancellation signal...'' w5
                   in session n e cfg session_id w6)))"

text \<open>What the platform receives from an invocation, and the effects it leaves.\<close>

definition handler_result :: "nat \<Rightarrow> env \<Rightarrow> config \<Rightarrow> job \<Rightarrow> world \<Rightarrow> (exn + pydict) option" where
  "handler_result n e cfg j w = map_option fst (handler n e cfg j w)"

definition handler_events :: "nat \<Rightarrow> env \<Rightarrow> config \<Rightarrow> job \<Rightarrow> world \<Rightarrow> (nat \<times> event) list" where
  "handler_events n e cfg j w =
     (case handler n e cfg j w of None \<Rightarrow> [] | Some (r, w1) \<Rightarrow> trace w1)"

text \<open>A worker that has not run a job yet.\<close>

definition fresh :: world where
  "fresh = \<lparr>clock = 0, n_spawns = 0, n_connects = 0, n_signals = 0,
            server_process = None, trace = []\<rparr>"

section \<open>Reading the record of effects\<close>

fun is_spawn :: "event \<Rightarrow> bool" where
  "is_spawn (Spawn p) = True"
| "is_spawn ev = False"

fun is_signal :: "event \<Rightarrow> bool" where
  "is_signal (Signal s p) = True"
| "is_signal (SignalFailed s p) = True"
| "is_signal ev = False"

fun is_poll :: "event \<Rightarrow> bool" where
  "is_poll (Poll p) = True"
| "is_poll ev = False"

fun is_progress :: "event \<Rightarrow> bool" where
  "is_progress (ProgressUpdate d) = True"
| "is_progress ev = False"

fun is_wait_for_server :: "event \<Rightarrow> bool" where
  "is_wait_for_server (WaitForServer T) = True"
| "is_wait_for_server ev = False"

text \<open>The events that a call of \<^verbatim>\<open>wait_for_server\<close> leaves.\<close>

fun is_probe :: "event \<Rightarrow> bool" where
  "is_probe (WaitForServer T) = True"
| "is_probe (WaitReturned T r) = True"
| "is_probe (Connect k) = True"
| "is_probe (Sleep n) = True"
| "is_probe ev = False"

text \<open>The line printed when, and only when, the liveness probe of the loop has failed.\<close>

definition is_health_check_failed :: "event \<Rightarrow> bool" where
  "is_health_check_failed ev =
     (ev = Print ''[PersonaPlex] Server health check failed, restarting...'')"

text \<open>
  A liveness probe that failed: \<^verbatim>\<open>wait_for_server(timeout=5)\<close> returned \<open>False\<close>. And the
  readiness wait of a restart: a call \<^verbatim>\<open>wait_for_server(timeout=60)\<close>.
\<close>

definition is_failed_probe :: "event \<Rightarrow> bool" where
  "is_failed_probe ev = (ev = WaitReturned 5 False)"

definition is_restart_wait :: "event \<Rightarrow> bool" where
  "is_restart_wait ev = (ev = WaitForServer 60)"

definition select :: "(event \<Rightarrow> bool) \<Rightarrow> (nat \<times> event) list \<Rightarrow> (nat \<times> event) list" where
  "select P evs = filter (\<lambda>x. P (snd x)) evs"

text \<open>
  The processes that have been spawned by time \<open>t\<close> and have not exited at time \<open>t\<close>.
\<close>

definition live_at :: "env \<Rightarrow> (nat \<times> event) list \<Rightarrow> nat \<Rightarrow> nat list" where
  "live_at e evs t =
     concat (map (\<lambda>x. case x of
                         (ts, Spawn p) \<Rightarrow> if ts \<le> t \<and> exit_status e p t = None then [p] else []
                       | _ \<Rightarrow> []) evs)"

section \<open>Scenarios\<close>

text \<open>
  Concrete configurations, jobs and environments on which the properties below are
  exercised.
\<close>

definition cfg0 :: config where
  "cfg0 = \<lparr>PERSONAPLEX_PORT = 8998, SSL_DIR = ''/app/ssl'', HF_TOKEN = [], CPU_OFFLOAD = False,
            RUNPOD_PUBLIC_IP = None, RUNPOD_POD_IP = None, RUNPOD_TCP_PORT = None\<rparr>"

definition job0 :: job where
  "job0 = \<lparr>job_id = ''job-1'', input_session_id = Some ''s1''\<rparr>"


text \<open>
  A session that is already being monitored: process 0 runs and no connection has been
  attempted yet.
\<close>

definition world_running :: world where
  "world_running =
     \<lparr>clock = 0, n_spawns = 1, n_connects = 0, n_signals = 0,
      server_process = Some \<lparr>pid = 0, returncode = None\<rparr>, trace = []\<rparr>"

text \<open>
  The first five connection attempts are refused and all later ones succeed; process 0
  exits a tenth of a second after the signal it is sent at 10 s, and its replacement
  exits with code 3 at 12 s.
\<close>

definition env_one_failure :: env where
  "env_one_failure =
     \<lparr>spawn_result = (\<lambda>k. None),
      proc_exit = (\<lambda>p. if p = 0 then Some (10100, - 15) else Some (12000, 3)),
      connect_result = (\<lambda>k. if k < 5 then Returns 111 else Returns 0),
      connect_duration = (\<lambda>k. 0),
      signal_result = (\<lambda>k. None)\<rparr>"



text \<open>
  The supervisor may not signal its child: every \<^verbatim>\<open>os.kill\<close> raises
  \<^verbatim>\<open>PermissionError\<close>. The server is ready at once, then stops answering, and never
  exits.
\<close>

definition eperm :: exn where
  "eperm = Exn OSError ''[Errno 1] Operation not permitted''"

definition env_unsignalable :: env where
  "env_unsignalable =
     \<lparr>spawn_result = (\<lambda>k. None),
      proc_exit = (\<lambda>p. None),
      connect_result = (\<lambda>k. if k = 0 then Returns 0 else Returns 111),
      connect_duration = (\<lambda>k. 0),
      signal_result = (\<lambda>k. Some eperm)\<rparr>"

text \<open>
  No replacement can be launched, no connection is accepted, and process 0 ignores the
  termination signal: it only exits when it is killed at 20 s.
\<close>

definition enomem :: exn where
  "enomem = Exn OSError ''[Errno 12] Cannot allocate memory''"

definition env_restart_spawn_fails :: env where
  "env_restart_spawn_fails =
     \<lparr>spawn_result = (\<lambda>k. if k = 0 then None else Some enomem),
      proc_exit = (\<lambda>p. Some (20001, - 9)),
      connect_result = (\<lambda>k. Returns 111),
      connect_duration = (\<lambda>k. 0),
      signal_result = (\<lambda>k. None)\<rparr>"

text \<open>
  The server is ready at once and the first child exits by itself with code 1 after two
  seconds, while the loop sleeps; the dead server refuses connections, a replacement
  answers them, and the replacement exits with code 0 at 12 s.
\<close>

definition env_exit_during_sleep :: env where
  "env_exit_during_sleep =
     \<lparr>spawn_result = (\<lambda>k. None),
      proc_exit = (\<lambda>p. if p = 0 then Some (2000, 1) else Some (12000, 0)),
      connect_result = (\<lambda>k. if 1 \<le> k \<and> k \<le> 5 then Returns 111 else Returns 0),
      connect_duration = (\<lambda>k. 0),
      signal_result = (\<lambda>k. None)\<rparr>"

text \<open>
  The port never opens: every connection attempt times out after one second. The child
  is running when the handler gives up.
\<close>

definition env_never_ready :: env where
  "env_never_ready =
     \<lparr>spawn_result = (\<lambda>k. None),
      proc_exit = (\<lambda>p. None),
      connect_result = (\<lambda>k. Returns 110),
      connect_duration = (\<lambda>k. 1000),
      signal_result = (\<lambda>k. None)\<rparr>"

text \<open>
  The child runs; of the connection attempts, number 4 is refused and number 5 succeeds.
\<close>

definition world_unhealthy :: world where
  "world_unhealthy =
     \<lparr>clock = 10000, n_spawns = 1, n_connects = 4, n_signals = 0,
      server_process = Some \<lparr>pid = 0, returncode = None\<rparr>, trace = []\<rparr>"

definition world_restarted :: world where
  "world_restarted =
     \<lparr>clock = 11000, n_spawns = 2, n_connects = 6, n_signals = 1,
      server_process = Some \<lparr>pid = 1, returncode = None\<rparr>,
      trace =
        [(10000, Print ''[PersonaPlex] Server health check failed, restarting...''),
         (10000, Signal SIGTERM 0), (10000, Spawn 1), (10000, WaitForServer 60),
         (10000, Connect 4), (10000, Sleep 1), (11000, Connect 5),
         (11000, WaitReturned 60 True)]\<rparr>"

text \<open>
  The server is ready at once and then never answers again, before or after the restart;
  the replacement exits with code 1 at 30 s.
\<close>

definition env_restart_never_ready :: env where
  "env_restart_never_ready =
     \<lparr>spawn_result = (\<lambda>k. None),
      proc_exit = (\<lambda>p. if p = 0 then Some (10100, - 15) else Some (30000, 1)),
      connect_result = (\<lambda>k. if k = 0 then Returns 0 else Returns 111),
      connect_duration = (\<lambda>k. 0),
      signal_result = (\<lambda>k. None)\<rparr>"

text \<open>
  The server is ready at once, then one liveness probe fails. The first child takes three
  seconds to shut down after the termination signal it gets at 10 s; its replacement
  answers and exits by itself with code 0 at 15 s.
\<close>

definition env_slow_shutdown :: env where
  "env_slow_shutdown =
     \<lparr>spawn_result = (\<lambda>k. None),
      proc_exit = (\<lambda>p. if p = 0 then Some (13000, - 15) else Some (15000, 0)),
      connect_result = (\<lambda>k. if 1 \<le> k \<and> k \<le> 5 then Returns 111 else Returns 0),
      connect_duration = (\<lambda>k. 0),
      signal_result = (\<lambda>k. None)\<rparr>"


text \<open>The port never opens and the supervisor may not signal its child.\<close>

definition env_never_ready_unsignalable :: env where
  "env_never_ready_unsignalable =
     \<lparr>spawn_result = (\<lambda>k. None),
      proc_exit = (\<lambda>p. None),
      connect_result = (\<lambda>k. Returns 110),
      connect_duration = (\<lambda>k. 1000),
      signal_result = (\<lambda>k. Some eperm)\<rparr>"

text \<open>
  No replacement can be launched and no connection is accepted after the first; the
  child never exits. The first signal is delivered, every later \<^verbatim>\<open>os.kill\<close> raises.
\<close>

definition env_restart_spawn_fails_unsignalable :: env where
  "env_restart_spawn_fails_unsignalable =
     \<lparr>spawn_result = (\<lambda>k. if k = 0 then None else Some enomem),
      proc_exit = (\<lambda>p. None),
      connect_result = (\<lambda>k. if k = 0 then Returns 0 else Returns 111),
      connect_duration = (\<lambda>k. 0),
      signal_result = (\<lambda>k. if k = 0 then None else Some eperm)\<rparr>"

text \<open>
  The same, but the two termination signals are delivered and ignored, and it is the
  kill signal, the third, that may not be sent.
\<close>

definition env_unkillable :: env where
  "env_unkillable =
     \<lparr>spawn_result = (\<lambda>k. if k = 0 then None else Some enomem),
      proc_exit = (\<lambda>p. None),
      connect_result = (\<lambda>k. if k = 0 then Returns 0 else Returns 111),
      connect_duration = (\<lambda>k. 0),
      signal_result = (\<lambda>k. if k = 2 then Some eperm else None)\<rparr>"


section \<open>Evaluation and frame rules\<close>

lemmas io_defs =
  log_def print_def sleep_def exit_status_def connect_attempt_def wait_for_server_def
  wait_for_server_default_def port_overflow_def
  start_personaplex_server_def internal_poll_def poll_def send_signal_def terminate_def
  kill_def wait_def server_running_def

lemmas handler_defs =
  restart_def cleanup_def session_def handler_def handler_result_def handler_events_def
  stopped_result_def error_result_def start_failed_result_def start_timeout_result_def
  pyval_of_returncode_def timeout_expired_def fresh_def

lemma log_simps [simp]:
  "clock (log ev w) = clock w" "n_spawns (log ev w) = n_spawns w"
  "n_connects (log ev w) = n_connects w" "n_signals (log ev w) = n_signals w"
  "server_process (log ev w) = server_process w"
  "trace (log ev w) = trace w @ [(clock w, ev)]"
  by (simp_all add: log_def)

lemma print_simps [simp]:
  "clock (print m w) = clock w" "n_spawns (print m w) = n_spawns w"
  "n_connects (print m w) = n_connects w" "n_signals (print m w) = n_signals w"
  "server_process (print m w) = server_process w"
  "trace (print m w) = trace w @ [(clock w, Print m)]"
  by (simp_all add: print_def)

lemma sleep_simps [simp]:
  "clock (sleep n w) = clock w + 1000 * n" "n_spawns (sleep n w) = n_spawns w"
  "n_connects (sleep n w) = n_connects w" "n_signals (sleep n w) = n_signals w"
  "server_process (sleep n w) = server_process w"
  "trace (sleep n w) = trace w @ [(clock w, Sleep n)]"
  by (simp_all add: sleep_def)

lemma connect_attempt_simps [simp]:
  "fst (connect_attempt e w) = connect_result e (n_connects w)"
  "clock (snd (connect_attempt e w)) = clock w + connect_duration e (n_connects w)"
  "n_spawns (snd (connect_attempt e w)) = n_spawns w"
  "n_connects (snd (connect_attempt e w)) = Suc (n_connects w)"
  "n_signals (snd (connect_attempt e w)) = n_signals w"
  "server_process (snd (connect_attempt e w)) = server_process w"
  "trace (snd (connect_attempt e w)) = trace w @ [(clock w, Connect (n_connects w))]"
  by (simp_all add: connect_attempt_def)

lemma wait_loop_unfold:
  "wait_loop e s T w =
     (if int (clock w) - int s < 1000 * T then
        (if connect_result e (n_connects w) = Returns 0 then (True, snd (connect_attempt e w))
         else wait_loop e s T (sleep 1 (snd (connect_attempt e w))))
      else (False, w))"
  by (subst wait_loop.simps) (auto simp: connect_attempt_def split: attempt.splits)

lemmas run_defs = handler_defs io_defs wait_loop_unfold Let_def

lemma wait_loop_induct [consumes 0, case_names step]:
  assumes "\<And>w. (int (clock w) - int s < 1000 * T \<Longrightarrow> connect_result e (n_connects w) \<noteq> Returns 0
              \<Longrightarrow> P (sleep 1 (snd (connect_attempt e w)))) \<Longrightarrow> P w"
  shows "P w"
proof (induction "nat (int s + 1000 * T - int (clock w))" arbitrary: w rule: less_induct)
  case less
  show ?case
  proof (rule assms)
    assume "int (clock w) - int s < 1000 * T"
    then have "nat (int s + 1000 * T - int (clock (sleep 1 (snd (connect_attempt e w)))))
               < nat (int s + 1000 * T - int (clock w))"
      by (simp add: sleep_def connect_attempt_def log_def)
    then show "P (sleep 1 (snd (connect_attempt e w)))" by (rule less)
  qed
qed

lemma wait_loop_frame:
  "wait_loop e s T w = (r, w') \<Longrightarrow>
     server_process w' = server_process w \<and> n_spawns w' = n_spawns w \<and>
     n_signals w' = n_signals w \<and> clock w \<le> clock w' \<and> n_connects w \<le> n_connects w'"
proof (induction w rule: wait_loop_induct[where e=e and s=s and T=T])
  case (step w)
  show ?case
  proof (cases "int (clock w) - int s < 1000 * T \<and> connect_result e (n_connects w) \<noteq> Returns 0")
    case True
    with step.prems have "wait_loop e s T (sleep 1 (snd (connect_attempt e w))) = (r, w')"
      by (subst (asm) wait_loop_unfold) simp
    from step.IH[OF _ _ this] True show ?thesis
      by simp
  next
    case False
    with step.prems show ?thesis
      by (subst (asm) wait_loop_unfold) (auto split: if_splits)
  qed
qed

lemma wait_loop_cases [consumes 1, case_names expired connected retry]:
  assumes "wait_loop e s T w = (r, w')"
  obtains "\<not> int (clock w) - int s < 1000 * T" "r = False" "w' = w"
  | "int (clock w) - int s < 1000 * T" "connect_result e (n_connects w) = Returns 0"
    "r = True" "w' = snd (connect_attempt e w)"
  | "int (clock w) - int s < 1000 * T" "connect_result e (n_connects w) \<noteq> Returns 0"
    "wait_loop e s T (sleep 1 (snd (connect_attempt e w))) = (r, w')"
  using assms by (subst (asm) wait_loop_unfold) (auto split: if_splits)

lemma wait_loop_true:
  "wait_loop e s T w = (r, w') \<Longrightarrow>
     r = (n_connects w < n_connects w' \<and> connect_result e (n_connects w' - 1) = Returns 0)"
proof (induction w rule: wait_loop_induct[where e=e and s=s and T=T])
  case (step w)
  from step.prems show ?case
  proof (cases rule: wait_loop_cases)
    case expired
    then show ?thesis by simp
  next
    case connected
    then show ?thesis by simp
  next
    case retry
    from wait_loop_frame[OF retry(3)] have "Suc (n_connects w) \<le> n_connects w'"
      by simp
    note le = this
    have ih: "r = (Suc (n_connects w) < n_connects w' \<and> connect_result e (n_connects w' - 1) = Returns 0)"
      using step.IH[OF retry] by simp
    show ?thesis
    proof (cases "Suc (n_connects w) = n_connects w'")
      case True
      then have "n_connects w' - 1 = n_connects w" by arith
      with retry(2) have "connect_result e (n_connects w' - 1) \<noteq> Returns 0" by simp
      moreover from ih True have "\<not> r" by simp
      ultimately show ?thesis by simp
    next
      case False
      with le have "Suc (n_connects w) < n_connects w'" by arith
      with ih show ?thesis by auto
    qed
  qed
qed

lemma wait_loop_earlier_failed:
  "wait_loop e s T w = (r, w') \<Longrightarrow> n_connects w \<le> k \<Longrightarrow>
     k + (if r then 1 else 0) < n_connects w' \<Longrightarrow> connect_result e k \<noteq> Returns 0"
proof (induction w rule: wait_loop_induct[where e=e and s=s and T=T])
  case (step w)
  from step.prems(1) show ?case
  proof (cases rule: wait_loop_cases)
    case expired
    with step.prems show ?thesis by simp
  next
    case connected
    with step.prems show ?thesis by simp
  next
    case retry
    show ?thesis
    proof (cases "k = n_connects w")
      case True
      with retry(2) show ?thesis by simp
    next
      case False
      with step.prems(2) have "n_connects (sleep 1 (snd (connect_attempt e w))) \<le> k"
        by simp
      from step.IH[OF retry this step.prems(3)] show ?thesis .
    qed
  qed
qed

lemma wait_loop_false_expired:
  "wait_loop e s T w = (False, w') \<Longrightarrow> 1000 * T \<le> int (clock w') - int s"
proof (induction w rule: wait_loop_induct[where e=e and s=s and T=T])
  case (step w)
  from step.prems show ?case
  proof (cases rule: wait_loop_cases)
    case expired
    then show ?thesis by simp
  next
    case connected
    then show ?thesis by simp
  next
    case retry
    from step.IH[OF retry] show ?thesis .
  qed
qed

lemma wait_loop_clock:
  "wait_loop e s T w = (r, w') \<Longrightarrow>
     clock w' = clock w + (\<Sum>k = n_connects w..<n_connects w'. connect_duration e k)
                + 1000 * (n_connects w' - n_connects w - (if r then 1 else 0))"
proof (induction w rule: wait_loop_induct[where e=e and s=s and T=T])
  case (step w)
  from step.prems show ?case
  proof (cases rule: wait_loop_cases)
    case expired
    then show ?thesis by simp
  next
    case connected
    then show ?thesis by simp
  next
    case retry
    from wait_loop_frame[OF retry(3)] have le: "Suc (n_connects w) \<le> n_connects w'"
      by simp
    from wait_loop_true[OF retry(3)] have "r \<Longrightarrow> Suc (n_connects w) < n_connects w'"
      by simp
    with le have "n_connects w' - n_connects w - (if r then 1 else 0)
          = Suc (n_connects w' - Suc (n_connects w) - (if r then 1 else 0))"
      by auto
    moreover from le have "(\<Sum>k = n_connects w..<n_connects w'. connect_duration e k)
          = connect_duration e (n_connects w) + (\<Sum>k = Suc (n_connects w)..<n_connects w'. connect_duration e k)"
      by (simp add: sum.atLeast_Suc_lessThan)
    ultimately show ?thesis using step.IH[OF retry] by simp
  qed
qed

lemma wait_loop_trace:
  "wait_loop e s T w = (r, w') \<Longrightarrow>
     \<exists>evs. trace w' = trace w @ evs \<and>
       (\<forall>(t, ev) \<in> set evs. ev = Sleep 1 \<or> (\<exists>k. ev = Connect k \<and> int t - int s < 1000 * T))"
proof (induction w rule: wait_loop_induct[where e=e and s=s and T=T])
  case (step w)
  from step.prems show ?case
  proof (cases rule: wait_loop_cases)
    case expired
    then show ?thesis by simp
  next
    case connected
    then show ?thesis by simp
  next
    case retry
    from step.IH[OF retry] obtain evs where
      evs: "trace w' = trace (sleep 1 (snd (connect_attempt e w))) @ evs"
        "\<forall>(t, ev) \<in> set evs. ev = Sleep 1 \<or> (\<exists>k. ev = Connect k \<and> int t - int s < 1000 * T)"
      by blast
    let ?pre = "[(clock w, Connect (n_connects w)),
                 (clock w + connect_duration e (n_connects w), Sleep 1)]"
    have "trace w' = trace w @ (?pre @ evs)" using evs(1) by simp
    moreover have "\<forall>(t, ev) \<in> set (?pre @ evs).
        ev = Sleep 1 \<or> (\<exists>k. ev = Connect k \<and> int t - int s < 1000 * T)"
      using evs(2) retry(1) by auto
    ultimately show ?thesis by blast
  qed
qed

lemma select_append [simp]: "select P (xs @ ys) = select P xs @ select P ys"
  by (simp add: select_def)

lemma select_Nil [simp]: "select P [] = []"
  by (simp add: select_def)

lemma select_Cons [simp]: "select P ((t, ev) # xs) = (if P ev then (t, ev) # select P xs else select P xs)"
  by (simp add: select_def)

lemma select_none: "\<forall>x \<in> set evs. \<not> P (snd x) \<Longrightarrow> select P evs = []"
  by (simp add: select_def)

lemma probe_not_others [simp]:
  "is_probe ev \<Longrightarrow> \<not> is_spawn ev" "is_probe ev \<Longrightarrow> \<not> is_signal ev"
  "is_probe ev \<Longrightarrow> \<not> is_poll ev" "is_probe ev \<Longrightarrow> \<not> is_progress ev"
  "is_probe ev \<Longrightarrow> \<not> is_health_check_failed ev"
  by (cases ev; simp add: is_health_check_failed_def)+

lemma signal_not_others [simp]:
  "is_signal ev \<Longrightarrow> \<not> is_spawn ev" "is_signal ev \<Longrightarrow> \<not> is_poll ev"
  "is_signal ev \<Longrightarrow> \<not> is_progress ev" "is_signal ev \<Longrightarrow> \<not> is_health_check_failed ev"
  "is_signal ev \<Longrightarrow> \<not> is_wait_for_server ev"
  by (cases ev; simp add: is_health_check_failed_def)+

lemma poll_not_others [simp]:
  "is_poll ev \<Longrightarrow> \<not> is_spawn ev" "is_poll ev \<Longrightarrow> \<not> is_signal ev"
  "is_poll ev \<Longrightarrow> \<not> is_progress ev" "is_poll ev \<Longrightarrow> \<not> is_health_check_failed ev"
  "is_poll ev \<Longrightarrow> \<not> is_wait_for_server ev"
  by (cases ev; simp add: is_health_check_failed_def)+

lemma is_health_check_failed_simps [simp]:
  "is_health_check_failed (Print m) \<longleftrightarrow> m = ''[PersonaPlex] Server health check failed, restarting...''"
  "\<not> is_health_check_failed (Spawn p)" "\<not> is_health_check_failed SpawnFailed"
  "\<not> is_health_check_failed (Poll p)" "\<not> is_health_check_failed (Signal sg p)"
  "\<not> is_health_check_failed (SignalFailed sg p)" "\<not> is_health_check_failed (ProcWait p n)"
  "\<not> is_health_check_failed (WaitForServer T)" "\<not> is_health_check_failed (Connect k)"
  "\<not> is_health_check_failed (Sleep n)" "\<not> is_health_check_failed (ProgressUpdate d)"
  by (simp_all add: is_health_check_failed_def)

lemma wait_for_server_frame [simp]:
  "server_process (snd (wait_for_server e T w)) = server_process w"
  "n_spawns (snd (wait_for_server e T w)) = n_spawns w"
  "n_signals (snd (wait_for_server e T w)) = n_signals w"
  using wait_loop_frame[of e "clock w" T "log (WaitForServer T) w"
          "fst (wait_for_server e T w)" "snd (wait_for_server e T w)"]
  by (simp_all add: wait_for_server_def)

lemma wait_for_server_mono:
  "clock w \<le> clock (snd (wait_for_server e T w))"
  "n_connects w \<le> n_connects (snd (wait_for_server e T w))"
  using wait_loop_frame[of e "clock w" T "log (WaitForServer T) w"
          "fst (wait_for_server e T w)" "snd (wait_for_server e T w)"]
  by (simp_all add: wait_for_server_def)

lemma wait_for_server_events:
  "\<exists>evs. trace (snd (wait_for_server e T w)) = trace w @ (clock w, WaitForServer T) # evs
         \<and> (\<forall>x \<in> set evs. is_probe (snd x) \<and> \<not> is_wait_for_server (snd x))"
proof -
  obtain r w' where rw: "wait_loop e (clock w) T (log (WaitForServer T) w) = (r, w')"
    by (cases "wait_loop e (clock w) T (log (WaitForServer T) w)")
  from wait_loop_trace[OF rw] obtain evs where
    evs: "trace w' = trace w @ (clock w, WaitForServer T) # evs"
      "\<forall>(t, ev) \<in> set evs. ev = Sleep 1 \<or> (\<exists>k. ev = Connect k \<and> int t - int (clock w) < 1000 * T)"
    by auto
  from evs(2) have "\<forall>x \<in> set evs. is_probe (snd x) \<and> \<not> is_wait_for_server (snd x)" by fastforce
  with evs(1) rw show ?thesis by (auto simp: wait_for_server_def)
qed


lemma internal_poll_pid [simp]: "pid (internal_poll e h t) = pid h"
  by (simp add: internal_poll_def split: option.splits)

lemma internal_poll_cached [simp]:
  "returncode h = Some rc \<Longrightarrow> internal_poll e h t = h"
  by (simp add: internal_poll_def)

lemma internal_poll_running:
  "returncode (internal_poll e h t) = None \<Longrightarrow> internal_poll e h t = h"
  by (cases "returncode h") (simp_all add: internal_poll_def)

lemma internal_poll_None_iff:
  "returncode (internal_poll e h t) = None \<longleftrightarrow> returncode h = None \<and> exit_status e (pid h) t = None"
  by (cases "returncode h") (simp_all add: internal_poll_def)

lemma send_signal_frame [simp]:
  "clock (snd (send_signal e sig h w)) = clock w"
  "n_spawns (snd (send_signal e sig h w)) = n_spawns w"
  "n_connects (snd (send_signal e sig h w)) = n_connects w"
  "server_process (snd (send_signal e sig h w)) = Some (internal_poll e h (clock w))"
  by (simp_all add: send_signal_def Let_def split: option.splits)

lemma send_signal_n_signals:
  "n_signals (snd (send_signal e sig h w)) =
     (if returncode (internal_poll e h (clock w)) = None then Suc (n_signals w) else n_signals w)"
  by (simp add: send_signal_def Let_def split: option.splits)

lemma send_signal_trace:
  "trace (snd (send_signal e sig h w)) =
     trace w @ (if returncode (internal_poll e h (clock w)) = None
                then [(clock w, case signal_result e (n_signals w) of
                                  None \<Rightarrow> Signal sig (pid h) | Some x \<Rightarrow> SignalFailed sig (pid h))]
                else [])"
  by (simp add: send_signal_def Let_def split: option.splits)

lemma send_signal_result:
  "fst (send_signal e sig h w) =
     (if returncode (internal_poll e h (clock w)) = None
      then (case signal_result e (n_signals w) of None \<Rightarrow> Inr () | Some x \<Rightarrow> Inl x)
      else Inr ())"
  by (simp add: send_signal_def Let_def split: option.splits)

lemma start_frame [simp]:
  "clock (snd (start_personaplex_server e cfg w)) = clock w"
  "n_spawns (snd (start_personaplex_server e cfg w)) = Suc (n_spawns w)"
  "n_connects (snd (start_personaplex_server e cfg w)) = n_connects w"
  "n_signals (snd (start_personaplex_server e cfg w)) = n_signals w"
  by (simp_all add: start_personaplex_server_def Let_def split: option.splits)

lemma start_result:
  "fst (start_personaplex_server e cfg w) =
     (case spawn_result e (n_spawns w) of
        Some x \<Rightarrow> Inl x
      | None \<Rightarrow> Inr \<lparr>pid = n_spawns w, returncode = None\<rparr>)"
  by (simp add: start_personaplex_server_def Let_def split: option.splits)

lemma start_server_process:
  "server_process (snd (start_personaplex_server e cfg w)) =
     (case spawn_result e (n_spawns w) of
        Some x \<Rightarrow> server_process w
      | None \<Rightarrow> Some \<lparr>pid = n_spawns w, returncode = None\<rparr>)"
  by (simp add: start_personaplex_server_def Let_def split: option.splits)

lemma start_trace:
  "trace (snd (start_personaplex_server e cfg w)) =
     trace w @ [(clock w, case spawn_result e (n_spawns w) of
                            Some x \<Rightarrow> SpawnFailed | None \<Rightarrow> Spawn (n_spawns w))]"
  by (simp add: start_personaplex_server_def Let_def split: option.splits)

lemma server_running_None [simp]:
  "server_process w = None \<Longrightarrow> server_running e w = (False, w)"
  by (simp add: server_running_def)

lemma server_running_Some:
  "server_process w = Some h \<Longrightarrow>
     server_running e w =
       (returncode (internal_poll e h (clock w)) = None,
        (log (Poll (pid h)) w)\<lparr>server_process := Some (internal_poll e h (clock w))\<rparr>)"
  by (simp add: server_running_def poll_def Let_def)

lemma wait_loop_bad_port_unfold:
  "wait_loop_bad_port e s T w =
     (if int (clock w) - int s < 1000 * T then
        (case connect_result e (n_connects w) of
           Returns c \<Rightarrow> (Inl port_overflow, snd (connect_attempt e w))
         | RaisesSocketError \<Rightarrow> wait_loop_bad_port e s T (sleep 1 (snd (connect_attempt e w))))
      else (Inr False, w))"
  by (subst wait_loop_bad_port.simps) (auto simp: connect_attempt_def split: attempt.splits)

lemma wait_loop_bad_port_cases [consumes 1, case_names expired overflow retry]:
  assumes "wait_loop_bad_port e s T w = (r, w')"
  obtains "\<not> int (clock w) - int s < 1000 * T" "r = Inr False" "w' = w"
  | c where "int (clock w) - int s < 1000 * T" "connect_result e (n_connects w) = Returns c"
    "r = Inl port_overflow" "w' = snd (connect_attempt e w)"
  | "int (clock w) - int s < 1000 * T" "connect_result e (n_connects w) = RaisesSocketError"
    "wait_loop_bad_port e s T (sleep 1 (snd (connect_attempt e w))) = (r, w')"
  using assms
  by (subst (asm) wait_loop_bad_port_unfold) (auto split: if_splits attempt.splits)

lemma wait_loop_bad_port_frame:
  "wait_loop_bad_port e s T w = (r, w') \<Longrightarrow>
     server_process w' = server_process w \<and> n_spawns w' = n_spawns w \<and>
     n_signals w' = n_signals w \<and> clock w \<le> clock w' \<and> n_connects w \<le> n_connects w'"
proof (induction w rule: wait_loop_induct[where e=e and s=s and T=T])
  case (step w)
  from step.prems show ?case
  proof (cases rule: wait_loop_bad_port_cases)
    case expired
    then show ?thesis by simp
  next
    case (overflow c)
    then show ?thesis by simp
  next
    case retry
    from retry(2) have "connect_result e (n_connects w) \<noteq> Returns 0" by simp
    from step.IH[OF retry(1) this retry(3)] show ?thesis by simp
  qed
qed

lemma wait_loop_bad_port_result:
  "wait_loop_bad_port e s T w = (r, w') \<Longrightarrow> r = Inr False \<or> r = Inl port_overflow"
proof (induction w rule: wait_loop_induct[where e=e and s=s and T=T])
  case (step w)
  from step.prems show ?case
  proof (cases rule: wait_loop_bad_port_cases)
    case expired
    then show ?thesis by simp
  next
    case (overflow c)
    then show ?thesis by simp
  next
    case retry
    from retry(2) have "connect_result e (n_connects w) \<noteq> Returns 0" by simp
    from step.IH[OF retry(1) this retry(3)] show ?thesis .
  qed
qed

lemma wait_loop_bad_port_false_expired:
  "wait_loop_bad_port e s T w = (Inr False, w') \<Longrightarrow> 1000 * T \<le> int (clock w') - int s"
proof (induction w rule: wait_loop_induct[where e=e and s=s and T=T])
  case (step w)
  from step.prems show ?case
  proof (cases rule: wait_loop_bad_port_cases)
    case expired
    then show ?thesis by simp
  next
    case (overflow c)
    then show ?thesis by simp
  next
    case retry
    from retry(2) have "connect_result e (n_connects w) \<noteq> Returns 0" by simp
    from step.IH[OF retry(1) this retry(3)] show ?thesis .
  qed
qed

lemma wait_loop_bad_port_trace:
  "wait_loop_bad_port e s T w = (r, w') \<Longrightarrow>
     \<exists>evs. trace w' = trace w @ evs \<and>
       (\<forall>(t, ev) \<in> set evs. ev = Sleep 1 \<or> (\<exists>k. ev = Connect k \<and> int t - int s < 1000 * T))"
proof (induction w rule: wait_loop_induct[where e=e and s=s and T=T])
  case (step w)
  from step.prems show ?case
  proof (cases rule: wait_loop_bad_port_cases)
    case expired
    then show ?thesis by simp
  next
    case (overflow c)
    then show ?thesis by simp
  next
    case retry
    from retry(2) have "connect_result e (n_connects w) \<noteq> Returns 0" by simp
    from step.IH[OF retry(1) this retry(3)] obtain evs where
      evs: "trace w' = trace (sleep 1 (snd (connect_attempt e w))) @ evs"
        "\<forall>(t, ev) \<in> set evs. ev = Sleep 1 \<or> (\<exists>k. ev = Connect k \<and> int t - int s < 1000 * T)"
      by blast
    let ?pre = "[(clock w, Connect (n_connects w)),
                 (clock w + connect_duration e (n_connects w), Sleep 1)]"
    have "trace w' = trace w @ (?pre @ evs)" using evs(1) by simp
    moreover have "\<forall>(t, ev) \<in> set (?pre @ evs).
        ev = Sleep 1 \<or> (\<exists>k. ev = Connect k \<and> int t - int s < 1000 * T)"
      using evs(2) retry(1) by auto
    ultimately show ?thesis by blast
  qed
qed

text \<open>The call with the default port.\<close>

lemma wait_for_server_default_valid:
  "PERSONAPLEX_PORT cfg \<le> 65535 \<Longrightarrow>
     wait_for_server_default e cfg T w =
       (Inr (fst (wait_for_server e T w)),
        log (WaitReturned T (fst (wait_for_server e T w))) (snd (wait_for_server e T w)))"
  by (simp add: wait_for_server_default_def case_prod_beta)

lemma wait_for_server_default_frame [simp]:
  "server_process (snd (wait_for_server_default e cfg T w)) = server_process w"
  "n_spawns (snd (wait_for_server_default e cfg T w)) = n_spawns w"
  "n_signals (snd (wait_for_server_default e cfg T w)) = n_signals w"
proof -
  let ?b = "wait_loop_bad_port e (clock w) T (log (WaitForServer T) w)"
  from wait_loop_bad_port_frame[of e "clock w" T "log (WaitForServer T) w" "fst ?b" "snd ?b"]
  have b: "server_process (snd ?b) = server_process w" "n_spawns (snd ?b) = n_spawns w"
    "n_signals (snd ?b) = n_signals w" by simp_all
  show "server_process (snd (wait_for_server_default e cfg T w)) = server_process w"
    "n_spawns (snd (wait_for_server_default e cfg T w)) = n_spawns w"
    "n_signals (snd (wait_for_server_default e cfg T w)) = n_signals w"
    using b by (simp_all add: wait_for_server_default_def case_prod_beta split: sum.splits)
qed

lemma wait_for_server_default_events:
  "\<exists>pevs. trace (snd (wait_for_server_default e cfg T w)) =
            trace w @ (clock w, WaitForServer T) # pevs
              @ (case fst (wait_for_server_default e cfg T w) of
                   Inl x \<Rightarrow> []
                 | Inr r \<Rightarrow> [(clock (snd (wait_for_server_default e cfg T w)), WaitReturned T r)])
         \<and> (\<forall>(t, ev) \<in> set pevs.
               ev = Sleep 1 \<or> (\<exists>k. ev = Connect k \<and> int t - int (clock w) < 1000 * T))"
proof (cases "PERSONAPLEX_PORT cfg \<le> 65535")
  case True
  obtain r w' where rw: "wait_loop e (clock w) T (log (WaitForServer T) w) = (r, w')"
    by (cases "wait_loop e (clock w) T (log (WaitForServer T) w)")
  from wait_loop_trace[OF rw] obtain evs where
    evs: "trace w' = trace w @ (clock w, WaitForServer T) # evs"
      "\<forall>(t, ev) \<in> set evs. ev = Sleep 1 \<or> (\<exists>k. ev = Connect k \<and> int t - int (clock w) < 1000 * T)"
    by auto
  from True rw evs(1) have "trace (snd (wait_for_server_default e cfg T w)) =
            trace w @ (clock w, WaitForServer T) # evs
              @ (case fst (wait_for_server_default e cfg T w) of
                   Inl x \<Rightarrow> []
                 | Inr r \<Rightarrow> [(clock (snd (wait_for_server_default e cfg T w)), WaitReturned T r)])"
    by (simp add: wait_for_server_default_def wait_for_server_def)
  with evs(2) show ?thesis by blast
next
  case False
  obtain r w' where rw: "wait_loop_bad_port e (clock w) T (log (WaitForServer T) w) = (r, w')"
    by (cases "wait_loop_bad_port e (clock w) T (log (WaitForServer T) w)")
  from wait_loop_bad_port_trace[OF rw] obtain evs where
    evs: "trace w' = trace w @ (clock w, WaitForServer T) # evs"
      "\<forall>(t, ev) \<in> set evs. ev = Sleep 1 \<or> (\<exists>k. ev = Connect k \<and> int t - int (clock w) < 1000 * T)"
    by auto
  from False rw evs(1) have "trace (snd (wait_for_server_default e cfg T w)) =
            trace w @ (clock w, WaitForServer T) # evs
              @ (case fst (wait_for_server_default e cfg T w) of
                   Inl x \<Rightarrow> []
                 | Inr r \<Rightarrow> [(clock (snd (wait_for_server_default e cfg T w)), WaitReturned T r)])"
    by (cases r) (simp_all add: wait_for_server_default_def)
  with evs(2) show ?thesis by blast
qed

lemma wait_for_server_default_false_expired:
  assumes "fst (wait_for_server_default e cfg T w) = Inr False"
  shows "1000 * T \<le> int (clock (snd (wait_for_server_default e cfg T w))) - int (clock w)"
proof (cases "PERSONAPLEX_PORT cfg \<le> 65535")
  case True
  with assms have f: "fst (wait_for_server e T w) = False"
    by (simp add: wait_for_server_default_valid)
  obtain w' where "wait_loop e (clock w) T (log (WaitForServer T) w) = (False, w')"
    using f by (cases "wait_loop e (clock w) T (log (WaitForServer T) w)")
      (simp add: wait_for_server_def)
  with wait_loop_false_expired[OF this] True show ?thesis
    by (simp add: wait_for_server_default_valid wait_for_server_def)
next
  case False
  obtain r w' where rw: "wait_loop_bad_port e (clock w) T (log (WaitForServer T) w) = (r, w')"
    by (cases "wait_loop_bad_port e (clock w) T (log (WaitForServer T) w)")
  with assms False have "r = Inr False"
    by (cases r) (simp_all add: wait_for_server_default_def)
  with rw wait_loop_bad_port_false_expired[of e "clock w" T "log (WaitForServer T) w" w'] False
  show ?thesis by (simp add: wait_for_server_default_def)
qed

lemma is_failed_probe_simps [simp]:
  "is_failed_probe (WaitReturned T r) \<longleftrightarrow> T = 5 \<and> \<not> r"
  "\<not> is_failed_probe (Print m)"
  "\<not> is_failed_probe (Spawn p)" "\<not> is_failed_probe SpawnFailed"
  "\<not> is_failed_probe (Poll p)" "\<not> is_failed_probe (Signal sg p)"
  "\<not> is_failed_probe (SignalFailed sg p)" "\<not> is_failed_probe (ProcWait p n)"
  "\<not> is_failed_probe (WaitForServer T)" "\<not> is_failed_probe (Connect k)"
  "\<not> is_failed_probe (Sleep n)" "\<not> is_failed_probe (ProgressUpdate d)"
  by (auto simp: is_failed_probe_def)

lemma is_restart_wait_simps [simp]:
  "is_restart_wait (WaitForServer T) \<longleftrightarrow> T = 60"
  "\<not> is_restart_wait (WaitReturned T r)" "\<not> is_restart_wait (Print m)"
  "\<not> is_restart_wait (Spawn p)" "\<not> is_restart_wait SpawnFailed"
  "\<not> is_restart_wait (Poll p)" "\<not> is_restart_wait (Signal sg p)"
  "\<not> is_restart_wait (SignalFailed sg p)" "\<not> is_restart_wait (ProcWait p n)"
  "\<not> is_restart_wait (Connect k)"
  "\<not> is_restart_wait (Sleep n)" "\<not> is_restart_wait (ProgressUpdate d)"
  by (auto simp: is_restart_wait_def)

lemma signal_not_probe_results [simp]:
  "is_signal ev \<Longrightarrow> \<not> is_failed_probe ev" "is_signal ev \<Longrightarrow> \<not> is_restart_wait ev"
  "is_poll ev \<Longrightarrow> \<not> is_failed_probe ev" "is_poll ev \<Longrightarrow> \<not> is_restart_wait ev"
  by (cases ev; simp)+

lemma wait_for_server_default_selected:
  "\<exists>evs. trace (snd (wait_for_server_default e cfg T w)) = trace w @ evs
      \<and> (\<forall>x \<in> set evs. is_probe (snd x))
      \<and> select is_wait_for_server evs = [(clock w, WaitForServer T)]
      \<and> select is_failed_probe evs =
          (if T = 5 \<and> fst (wait_for_server_default e cfg T w) = Inr False
           then [(clock (snd (wait_for_server_default e cfg T w)), WaitReturned 5 False)] else [])
      \<and> (\<forall>t k. (t, Connect k) \<in> set evs \<longrightarrow> int t - int (clock w) < 1000 * T)"
proof -
  let ?d = "wait_for_server_default e cfg T w"
  let ?ret = "case fst ?d of Inl x \<Rightarrow> [] | Inr r \<Rightarrow> [(clock (snd ?d), WaitReturned T r)]"
  from wait_for_server_default_events[of e cfg T w] obtain pevs where
    tr: "trace (snd ?d) = trace w @ (clock w, WaitForServer T) # pevs @ ?ret"
    and pe: "\<forall>(t, ev) \<in> set pevs.
               ev = Sleep 1 \<or> (\<exists>k. ev = Connect k \<and> int t - int (clock w) < 1000 * T)"
    by blast
  let ?evs = "(clock w, WaitForServer T) # pevs @ ?ret"
  have p1: "\<forall>x \<in> set pevs. is_probe (snd x) \<and> \<not> is_wait_for_server (snd x)
                \<and> \<not> is_failed_probe (snd x)"
    using pe by fastforce
  then have ps: "select is_wait_for_server pevs = []" "select is_failed_probe pevs = []"
    by (auto intro!: select_none)
  have a: "\<forall>x \<in> set ?evs. is_probe (snd x)"
    using p1 by (auto split: sum.splits)
  have b: "select is_wait_for_server ?evs = [(clock w, WaitForServer T)]"
    using ps by (simp split: sum.splits)
  have c: "select is_failed_probe ?evs =
          (if T = 5 \<and> fst ?d = Inr False then [(clock (snd ?d), WaitReturned 5 False)] else [])"
    using ps by (auto split: sum.splits)
  have d: "\<forall>t k. (t, Connect k) \<in> set ?evs \<longrightarrow> int t - int (clock w) < 1000 * T"
    using pe by (auto split: sum.splits)
  from tr a b c d show ?thesis by blast
qed

lemma restart_None:
  "server_process w = None \<Longrightarrow>
     restart e cfg w =
       (Inl (none_has_no_attribute ''terminate''),
        print ''[PersonaPlex] Server health check failed, restarting...'' w)"
  by (simp add: restart_def terminate_def)

lemma restart_Some:
  assumes "server_process w = Some h"
  shows "restart e cfg w =
     (let s = send_signal e SIGTERM h
                (print ''[PersonaPlex] Server health check failed, restarting...'' w);
          st = start_personaplex_server e cfg (snd s);
          rd = wait_for_server_default e cfg 60 (snd st)
      in case fst s of
           Inl x \<Rightarrow> (Inl x, snd s)
         | Inr u \<Rightarrow>
             (case spawn_result e (n_spawns w) of
                Some x \<Rightarrow> (Inl x, snd st)
              | None \<Rightarrow>
                  (case fst rd of
                     Inl x \<Rightarrow> (Inl x, snd rd)
                   | Inr r \<Rightarrow> (Inr (), snd rd))))"
proof -
  let ?s = "send_signal e SIGTERM h
              (print ''[PersonaPlex] Server health check failed, restarting...'' w)"
  let ?st = "start_personaplex_server e cfg (snd ?s)"
  let ?rd = "wait_for_server_default e cfg 60 (snd ?st)"
  have t: "terminate e (print ''[PersonaPlex] Server health check failed, restarting...'' w) = ?s"
    using assms by (simp add: terminate_def)
  have "restart e cfg w =
     (case fst ?s of
        Inl x \<Rightarrow> (Inl x, snd ?s)
      | Inr u \<Rightarrow> (case fst ?st of
                    Inl x \<Rightarrow> (Inl x, snd ?st)
                  | Inr p \<Rightarrow> (case fst ?rd of
                                Inl x \<Rightarrow> (Inl x, snd ?rd)
                              | Inr r \<Rightarrow> (Inr (), snd ?rd))))"
    unfolding restart_def t by (simp add: case_prod_beta split: sum.splits)
  then show ?thesis
    by (simp add: start_result Let_def split: sum.splits option.splits)
qed

lemma restart_counts:
  assumes "restart e cfg w = (r, w')"
  shows "\<exists>evs. trace w' = trace w @ evs
           \<and> select is_failed_probe evs = [] \<and> select is_poll evs = []
           \<and> length (select is_restart_wait evs) = length (select is_spawn evs)
           \<and> length (select is_spawn evs) \<le> 1
           \<and> (r = Inr () \<longrightarrow> length (select is_spawn evs) = 1)"
proof -
  let ?m = "''[PersonaPlex] Server health check failed, restarting...''"
  let ?w0 = "print ?m w"
  show ?thesis
  proof (cases "server_process w")
    case None
    with assms show ?thesis by (auto simp: restart_None)
  next
    case (Some h)
    let ?s = "send_signal e SIGTERM h ?w0"
    let ?w1 = "snd ?s"
    let ?w2 = "snd (start_personaplex_server e cfg ?w1)"
    let ?rd = "wait_for_server_default e cfg 60 ?w2"
    obtain sevs where sevs: "trace ?w1 = trace w @ (clock w, Print ?m) # sevs"
      "\<forall>x \<in> set sevs. is_signal (snd x)"
      by (auto simp: send_signal_trace split: option.splits)
    have s0: "select is_failed_probe sevs = []" "select is_spawn sevs = []"
      "select is_poll sevs = []" "select is_restart_wait sevs = []"
      using sevs(2) by (auto intro!: select_none)
    note unf = restart_Some[OF Some, of e cfg, unfolded Let_def]
    show ?thesis
    proof (cases "fst ?s")
      case (Inl x)
      with assms unf have "r = Inl x" "w' = ?w1" by simp_all
      with sevs s0 show ?thesis by simp
    next
      case (Inr u)
      show ?thesis
      proof (cases "spawn_result e (n_spawns w)")
        case (Some x)
        with Inr assms unf have "r = Inl x" "w' = ?w2" by simp_all
        with sevs s0 Some show ?thesis by (simp add: start_trace)
      next
        case None
        with Inr assms unf have w': "w' = snd ?rd"
          by (cases "fst ?rd") simp_all
        from wait_for_server_default_selected[of e cfg 60 ?w2] obtain pevs where
          pevs: "trace (snd ?rd) = trace ?w2 @ pevs" "\<forall>x \<in> set pevs. is_probe (snd x)"
            "select is_wait_for_server pevs = [(clock ?w2, WaitForServer 60)]"
            "select is_failed_probe pevs = []"
          by auto
        have p0: "select is_spawn pevs = []" "select is_poll pevs = []"
          using pevs(2) by (auto intro!: select_none)
        have "select is_restart_wait pevs = select is_restart_wait (select is_wait_for_server pevs)"
          by (induction pevs) (auto simp: select_def elim: is_wait_for_server.elims)
        with pevs(3) have p1: "length (select is_restart_wait pevs) = 1" by simp
        let ?evs = "((clock w, Print ?m) # sevs) @ [(clock w, Spawn (n_spawns w))] @ pevs"
        have tr: "trace w' = trace w @ ?evs"
          using w' pevs(1) sevs(1) None by (simp add: start_trace)
        have "select is_failed_probe ?evs = []" "select is_poll ?evs = []"
          "length (select is_restart_wait ?evs) = length (select is_spawn ?evs)"
          "length (select is_spawn ?evs) = 1"
          using s0 p0 p1 pevs(4) by simp_all
        with tr show ?thesis by (metis le_refl)
      qed
    qed
  qed
qed


lemma monitor_Suc:
  "monitor (Suc n) e cfg w =
     (let sr = server_running e w;
          pr = wait_for_server_default e cfg 5 (sleep 5 (snd sr));
          rs = restart e cfg (snd pr)
      in if \<not> fst sr then Some (Inr (), snd sr)
         else (case fst pr of
                 Inl x \<Rightarrow> Some (Inl x, snd pr)
               | Inr b \<Rightarrow>
                   if b then monitor n e cfg (snd pr)
                   else (case fst rs of
                           Inl x \<Rightarrow> Some (Inl x, snd rs)
                         | Inr u \<Rightarrow> monitor n e cfg (snd rs))))"
  by (simp add: case_prod_beta Let_def split: sum.splits bool.splits)

declare monitor.simps(2) [simp del]


lemmas run_simps = run_defs wait_loop_bad_port_unfold monitor.simps connection_info_def get_public_ip_def
  get_tcp_port_def str_nat.simps select_def cfg0_def job0_def

lemma terminate_Some: "server_process w = Some h \<Longrightarrow> terminate e w = send_signal e SIGTERM h w"
  by (simp add: terminate_def)

lemma kill_Some: "server_process w = Some h \<Longrightarrow> kill e w = send_signal e SIGKILL h w"
  by (simp add: kill_def)

lemma wait_frame [simp]:
  "n_spawns (snd (wait e T w)) = n_spawns w"
  "n_connects (snd (wait e T w)) = n_connects w"
  "n_signals (snd (wait e T w)) = n_signals w"
  by (simp_all add: wait_def Let_def split: option.splits prod.splits)

lemma wait_result:
  "server_process w = Some h \<Longrightarrow>
     (\<exists>rc. fst (wait e T w) = Inr rc) \<or> fst (wait e T w) = Inl timeout_expired"
  by (simp add: wait_def Let_def split: option.splits prod.splits)

lemma wait_server_process:
  "server_process w = Some h \<Longrightarrow>
     \<exists>h'. server_process (snd (wait e T w)) = Some h' \<and> pid h' = pid h"
  by (simp add: wait_def Let_def split: option.splits prod.splits)

lemma wait_trace:
  "server_process w = Some h \<Longrightarrow>
     trace (snd (wait e T w)) = trace w @ [(clock w, ProcWait (pid h) T)]"
  by (simp add: wait_def Let_def split: option.splits prod.splits)

lemma internal_poll_idem [simp]:
  "internal_poll e (internal_poll e h t) t = internal_poll e h t"
  by (cases "returncode h") (auto simp: internal_poll_def split: option.splits)

lemma cleanup_None: "server_process w = None \<Longrightarrow> cleanup e w = (Inr (), w)"
  by (simp add: cleanup_def)

lemma cleanup_exited:
  assumes "server_process w = Some h" and "returncode (internal_poll e h (clock w)) = Some rc"
  shows "cleanup e w =
           (Inr (), (log (Poll (pid h)) w)\<lparr>server_process := Some (internal_poll e h (clock w))\<rparr>)"
  using assms by (simp add: cleanup_def server_running_Some)

lemma cleanup_running:
  assumes "server_process w = Some h" and "returncode (internal_poll e h (clock w)) = None"
  shows "cleanup e w =
     (let w1 = (log (Poll (pid h)) w)\<lparr>server_process := Some (internal_poll e h (clock w))\<rparr>;
          s = send_signal e SIGTERM (internal_poll e h (clock w))
                (print ''[PersonaPlex] Shutting down server...'' w1);
          wt = wait e 10 (snd s)
      in case fst s of
           Inl x \<Rightarrow> (Inl x, snd s)
         | Inr u \<Rightarrow>
             (case fst wt of
                Inr rc \<Rightarrow> (Inr (), snd wt)
              | Inl x \<Rightarrow> if exn_class_of x = TimeoutExpired then kill e (snd wt)
                         else (Inl x, snd wt)))"
  using assms
  by (simp add: cleanup_def server_running_Some terminate_def print_def log_def Let_def
        case_prod_beta split: sum.splits)

lemma cleanup_no_raise:
  assumes "signal_result e (n_signals w) = None" and "signal_result e (Suc (n_signals w)) = None"
  shows "fst (cleanup e w) = Inr ()"
proof (cases "server_process w")
  case None
  then show ?thesis by (simp add: cleanup_None)
next
  case (Some h)
  let ?h1 = "internal_poll e h (clock w)"
  show ?thesis
  proof (cases "returncode ?h1")
    case (Some rc)
    with \<open>server_process w = Some h\<close> show ?thesis by (simp add: cleanup_exited)
  next
    case None
    let ?w1 = "(log (Poll (pid h)) w)\<lparr>server_process := Some ?h1\<rparr>"
    let ?s = "send_signal e SIGTERM ?h1 (print ''[PersonaPlex] Shutting down server...'' ?w1)"
    let ?wt = "wait e 10 (snd ?s)"
    have s_ok: "fst ?s = Inr ()"
      using None assms(1) by (simp add: send_signal_result)
    have sp: "server_process (snd ?s) = Some ?h1" by simp
    have ns: "n_signals (snd ?s) = Suc (n_signals w)"
      using None by (simp add: send_signal_n_signals)
    from wait_server_process[OF sp, of e 10] obtain h' where
      h': "server_process (snd ?wt) = Some h'" by blast
    have k_ok: "fst (kill e (snd ?wt)) = Inr ()"
      using h' ns assms(2) by (simp add: kill_Some send_signal_result)
    from wait_result[OF sp, of e 10] show ?thesis
    proof
      assume "\<exists>rc. fst ?wt = Inr rc"
      then show ?thesis
        using cleanup_running[OF \<open>server_process w = Some h\<close> None] s_ok
        by (auto simp: Let_def)
    next
      assume "fst ?wt = Inl timeout_expired"
      then show ?thesis
        using cleanup_running[OF \<open>server_process w = Some h\<close> None] s_ok k_ok
        by (simp add: Let_def timeout_expired_def)
    qed
  qed
qed

lemma internal_poll_Some:
  "returncode (internal_poll e h t) = Some rc \<Longrightarrow> internal_poll e h t = h\<lparr>returncode := Some rc\<rparr>"
  by (cases "returncode h") (auto simp: internal_poll_def)

lemma wait_for_server_false_expired:
  "fst (wait_for_server e T w) = False \<Longrightarrow>
     1000 * T \<le> int (clock (snd (wait_for_server e T w))) - int (clock w)"
  using wait_loop_false_expired[of e "clock w" T "log (WaitForServer T) w" "snd (wait_for_server e T w)"]
  by (cases "wait_for_server e T w") (auto simp: wait_for_server_def)

lemma server_running_alive:
  assumes "server_process w = Some h" and "returncode (internal_poll e h (clock w)) = None"
  shows "server_running e w = (True, log (Poll (pid h)) w)"
proof -
  have "internal_poll e h (clock w) = h" using assms(2) by (rule internal_poll_running)
  moreover have "(log (Poll (pid h)) w)\<lparr>server_process := Some h\<rparr> = log (Poll (pid h)) w"
    using assms(1) by (simp add: log_def)
  ultimately show ?thesis using assms by (simp add: server_running_Some)
qed

lemma handler_start_failed:
  "spawn_result e (n_spawns w) = Some x \<Longrightarrow>
     handler_result n e cfg j w =
       Some (Inr [(''error'', PyStr (''Failed to start PersonaPlex server: '' @ str_exn x))])"
  by (simp add: handler_result_def handler_def start_personaplex_server_def Let_def
        start_failed_result_def)

lemma wait_for_server_facts:
  assumes "wait_for_server e T w = (r, w')"
  shows "(r \<longleftrightarrow> (\<exists>k. n_connects w \<le> k \<and> k < n_connects w' \<and> connect_result e k = Returns 0))
       \<and> (\<forall>k. n_connects w \<le> k \<and> Suc k < n_connects w' \<longrightarrow> connect_result e k \<noteq> Returns 0)
       \<and> (r \<longrightarrow> n_connects w < n_connects w' \<and> connect_result e (n_connects w' - 1) = Returns 0)
       \<and> (\<not> r \<longrightarrow> 1000 * T \<le> int (clock w') - int (clock w))
       \<and> clock w' = clock w + (\<Sum>k = n_connects w..<n_connects w'. connect_duration e k)
                     + 1000 * (n_connects w' - n_connects w - (if r then 1 else 0))
       \<and> (\<forall>t k. (t, Connect k) \<in> set (drop (length (trace w)) (trace w'))
              \<longrightarrow> int t - int (clock w) < 1000 * T)"
proof -
  let ?w0 = "log (WaitForServer T) w"
  from assms have loop: "wait_loop e (clock w) T ?w0 = (r, w')"
    by (simp add: wait_for_server_def)
  have last: "r = (n_connects w < n_connects w' \<and> connect_result e (n_connects w' - 1) = Returns 0)"
    using wait_loop_true[OF loop] by simp
  have earlier: "\<And>k. n_connects w \<le> k \<Longrightarrow> k + (if r then 1 else 0) < n_connects w'
                   \<Longrightarrow> connect_result e k \<noteq> Returns 0"
    using wait_loop_earlier_failed[OF loop] by simp
  have c1: "r \<longleftrightarrow> (\<exists>k. n_connects w \<le> k \<and> k < n_connects w' \<and> connect_result e k = Returns 0)"
  proof
    assume r
    with last have "n_connects w \<le> n_connects w' - 1" "n_connects w' - 1 < n_connects w'"
      "connect_result e (n_connects w' - 1) = Returns 0" by auto
    then show "\<exists>k. n_connects w \<le> k \<and> k < n_connects w' \<and> connect_result e k = Returns 0"
      by blast
  next
    assume "\<exists>k. n_connects w \<le> k \<and> k < n_connects w' \<and> connect_result e k = Returns 0"
    then obtain k where k: "n_connects w \<le> k" "k < n_connects w'" "connect_result e k = Returns 0"
      by blast
    show r
    proof (rule ccontr)
      assume "\<not> r"
      with earlier[OF k(1)] k(2,3) show False by simp
    qed
  qed
  have c2: "\<forall>k. n_connects w \<le> k \<and> Suc k < n_connects w' \<longrightarrow> connect_result e k \<noteq> Returns 0"
    using earlier by (cases r) auto
  have c3: "r \<longrightarrow> n_connects w < n_connects w' \<and> connect_result e (n_connects w' - 1) = Returns 0"
    using last by simp
  have c4: "\<not> r \<longrightarrow> 1000 * T \<le> int (clock w') - int (clock w)"
    using wait_loop_false_expired[of e "clock w" T ?w0 w'] loop by auto
  have c5: "clock w' = clock w + (\<Sum>k = n_connects w..<n_connects w'. connect_duration e k)
                     + 1000 * (n_connects w' - n_connects w - (if r then 1 else 0))"
    using wait_loop_clock[OF loop] by simp
  from wait_loop_trace[OF loop] obtain evs where
    evs: "trace w' = trace w @ (clock w, WaitForServer T) # evs"
      "\<forall>(t, ev) \<in> set evs. ev = Sleep 1 \<or> (\<exists>k. ev = Connect k \<and> int t - int (clock w) < 1000 * T)"
    by auto
  have c6: "\<forall>t k. (t, Connect k) \<in> set (drop (length (trace w)) (trace w'))
              \<longrightarrow> int t - int (clock w) < 1000 * T"
    using evs by auto
  from c1 c2 c3 c4 c5 c6 show ?thesis by blast
qed



lemma handler_spawned:
  fixes j :: job and e :: env and cfg :: config and w :: world
  defines "sid \<equiv> (case input_session_id j of Some s \<Rightarrow> s | None \<Rightarrow> job_id j)"
  defines "rdy \<equiv> wait_for_server_default e cfg 120
                  (print (''[PersonaPlex] Waiting for server on port ''
                          @ str_nat (PERSONAPLEX_PORT cfg) @ ''...'')
                    (snd (start_personaplex_server e cfg
                           (print (''[PersonaPlex] Starting server for session: '' @ sid) w))))"
  assumes spawn: "spawn_result e (n_spawns w) = None"
  shows "handler n e cfg j w =
           (case fst rdy of
              Inl x \<Rightarrow> Some (Inl x, snd rdy)
            | Inr b \<Rightarrow>
                if b then
                  session n e cfg sid
                    (print ''[PersonaPlex] Waiting for cancellation signal...''
                      (print (''[PersonaPlex] Server running at wss://''
                              @ get_public_ip cfg @ '':'' @ get_tcp_port cfg)
                        (log (ProgressUpdate (connection_info cfg sid))
                          (print ''[PersonaPlex] Server is ready!'' (snd rdy)))))
                else (case fst (terminate e (snd rdy)) of
                        Inl x \<Rightarrow> Some (Inl x, snd (terminate e (snd rdy)))
                      | Inr u \<Rightarrow> Some (Inr start_timeout_result, snd (terminate e (snd rdy)))))"
proof -
  let ?st = "start_personaplex_server e cfg
               (print (''[PersonaPlex] Starting server for session: '' @ sid) w)"
  have st: "?st = (Inr \<lparr>pid = n_spawns w, returncode = None\<rparr>, snd ?st)"
    using spawn by (simp add: start_personaplex_server_def Let_def)
  have sp: "server_process (snd rdy) = Some \<lparr>pid = n_spawns w, returncode = None\<rparr>"
    using spawn by (simp add: rdy_def start_server_process)
  show ?thesis
    unfolding handler_def Let_def sid_def[symmetric]
    apply (subst st)
    apply (simp only: prod.case sum.case)
    using sp by (simp add: case_prod_beta rdy_def split: sum.splits bool.splits)
qed




lemma restart_handle:
  assumes sp: "server_process w = Some h" and rs: "restart e cfg w = (rr, w3)"
  shows "(\<exists>evs. trace w3 = trace w @ evs \<and> select is_poll evs = [])
       \<and> (case rr of
            Inr u \<Rightarrow> server_process w3 = Some \<lparr>pid = n_spawns w, returncode = None\<rparr>
                      \<and> n_spawns w3 = Suc (n_spawns w)
          | Inl x \<Rightarrow> (\<exists>h'. server_process w3 = Some h'
                             \<and> (pid h' = pid h \<and> n_spawns w \<le> n_spawns w3
                                \<or> pid h' = n_spawns w \<and> n_spawns w3 = Suc (n_spawns w))))"
proof -
  from restart_counts[OF rs] obtain evs where
    evs: "trace w3 = trace w @ evs" "select is_poll evs = []" by blast
  let ?m = "''[PersonaPlex] Server health check failed, restarting...''"
  let ?s = "send_signal e SIGTERM h (print ?m w)"
  let ?st = "start_personaplex_server e cfg (snd ?s)"
  let ?rd = "wait_for_server_default e cfg 60 (snd ?st)"
  note unf = restart_Some[OF sp, of e cfg, unfolded Let_def]
  have "case rr of
            Inr u \<Rightarrow> server_process w3 = Some \<lparr>pid = n_spawns w, returncode = None\<rparr>
                      \<and> n_spawns w3 = Suc (n_spawns w)
          | Inl x \<Rightarrow> (\<exists>h'. server_process w3 = Some h'
                             \<and> (pid h' = pid h \<and> n_spawns w \<le> n_spawns w3
                                \<or> pid h' = n_spawns w \<and> n_spawns w3 = Suc (n_spawns w)))"
  proof (cases "fst ?s")
    case (Inl x)
    with rs unf have "rr = Inl x" "w3 = snd ?s" by simp_all
    then show ?thesis by simp
  next
    case (Inr u)
    show ?thesis
    proof (cases "spawn_result e (n_spawns w)")
      case (Some x)
      with Inr rs unf have "rr = Inl x" "w3 = snd ?st" by simp_all
      with Some show ?thesis by (simp add: start_server_process)
    next
      case None
      show ?thesis
      proof (cases "fst ?rd")
        case (Inl x)
        with None Inr rs unf have "rr = Inl x" "w3 = snd ?rd" by simp_all
        with None show ?thesis by (simp add: start_server_process)
      next
        case (Inr r)
        with None \<open>fst ?s = Inr u\<close> rs unf have "rr = Inr ()" "w3 = snd ?rd" by simp_all
        with None show ?thesis by (simp add: start_server_process)
      qed
    qed
  qed
  with evs show ?thesis by blast
qed

lemma monitor_polls:
  "monitor n e cfg w = Some (r, w') \<Longrightarrow> server_process w = Some h \<Longrightarrow> pid h < n_spawns w \<Longrightarrow>
     (\<exists>evs. trace w' = trace w @ evs \<and> (\<forall>t q. (t, Poll q) \<in> set evs \<longrightarrow> pid h \<le> q))
     \<and> (\<exists>h'. server_process w' = Some h' \<and> pid h \<le> pid h' \<and> pid h' < n_spawns w')"
proof (induction n arbitrary: w h)
  case 0
  then show ?case by simp
next
  case (Suc n)
  let ?ip = "internal_poll e h (clock w)"
  let ?w1 = "(log (Poll (pid h)) w)\<lparr>server_process := Some ?ip\<rparr>"
  have sr: "server_running e w = (returncode ?ip = None, ?w1)"
    using Suc.prems(2) by (rule server_running_Some)
  let ?pr = "wait_for_server_default e cfg 5 (sleep 5 ?w1)"
  let ?w2 = "snd ?pr"
  let ?rs = "restart e cfg ?w2"
  note unf = Suc.prems(1)[unfolded monitor_Suc Let_def sr fst_conv snd_conv]
  show ?case
  proof (cases "returncode ?ip = None")
    case False
    with unf have "w' = ?w1" by simp
    with Suc.prems(3) show ?thesis by simp
  next
    case True
    from wait_for_server_default_selected[of e cfg 5 "sleep 5 ?w1"] obtain pevs0 where
      pevs0: "trace ?w2 = trace (sleep 5 ?w1) @ pevs0" "\<forall>x \<in> set pevs0. is_probe (snd x)"
      by blast
    let ?pre = "(clock w, Poll (pid h)) # (clock w, Sleep 5) # pevs0"
    have tr2: "trace ?w2 = trace w @ ?pre" using pevs0(1) by simp
    have nopoll: "\<forall>t q. (t, Poll q) \<in> set ?pre \<longrightarrow> pid h \<le> q"
      using pevs0(2) by fastforce
    have sp2: "server_process ?w2 = Some ?ip" and ns2: "n_spawns ?w2 = n_spawns w" by simp_all
    show ?thesis
    proof (cases "fst ?pr")
      case (Inl x)
      with True unf have "w' = ?w2" by simp
      with tr2 nopoll sp2 ns2 Suc.prems(3) show ?thesis by auto
    next
      case (Inr b)
      show ?thesis
      proof (cases b)
        case True
        with Inr \<open>returncode ?ip = None\<close> unf
        have "monitor n e cfg ?w2 = Some (r, w')" by simp
        from Suc.IH[OF this sp2] Suc.prems(3) ns2 obtain evs h' where
          ih: "trace w' = trace ?w2 @ evs" "\<forall>t q. (t, Poll q) \<in> set evs \<longrightarrow> pid h \<le> q"
            "server_process w' = Some h'" "pid h \<le> pid h'" "pid h' < n_spawns w'"
          by auto
        have "trace w' = trace w @ (?pre @ evs)" using ih(1) tr2 by simp
        moreover have "\<forall>t q. (t, Poll q) \<in> set (?pre @ evs) \<longrightarrow> pid h \<le> q"
          using ih(2) nopoll by auto
        ultimately show ?thesis using ih(3,4,5) by blast
      next
        case False
        obtain rr w3 where rs: "?rs = (rr, w3)" by (cases ?rs)
        from restart_handle[OF sp2 rs] obtain revs where
          revs: "trace w3 = trace ?w2 @ revs" "select is_poll revs = []"
          and hd: "case rr of
              Inr u \<Rightarrow> server_process w3 = Some \<lparr>pid = n_spawns ?w2, returncode = None\<rparr>
                        \<and> n_spawns w3 = Suc (n_spawns ?w2)
            | Inl x \<Rightarrow> (\<exists>h'. server_process w3 = Some h'
                             \<and> (pid h' = pid ?ip \<and> n_spawns ?w2 \<le> n_spawns w3
                                \<or> pid h' = n_spawns ?w2 \<and> n_spawns w3 = Suc (n_spawns ?w2)))"
          by blast
        have rnopoll: "\<forall>t q. (t, Poll q) \<in> set revs \<longrightarrow> pid h \<le> q"
        proof (intro allI impI)
          fix t q assume "(t, Poll q) \<in> set revs"
          then have "(t, Poll q) \<in> set (select is_poll revs)" by (simp add: select_def)
          with revs(2) show "pid h \<le> q" by simp
        qed
        show ?thesis
        proof (cases rr)
          case (Inl x)
          with \<open>returncode ?ip = None\<close> \<open>fst ?pr = Inr b\<close> False unf rs have "w' = w3" by simp
          have "trace w' = trace w @ (?pre @ revs)" using \<open>w' = w3\<close> revs(1) tr2 by simp
          moreover have "\<forall>t q. (t, Poll q) \<in> set (?pre @ revs) \<longrightarrow> pid h \<le> q"
            using rnopoll nopoll by auto
          moreover have "\<exists>h'. server_process w' = Some h' \<and> pid h \<le> pid h' \<and> pid h' < n_spawns w'"
            using hd Inl \<open>w' = w3\<close> Suc.prems(3) ns2 by auto
          ultimately show ?thesis by blast
        next
          case (Inr u)
          with \<open>returncode ?ip = None\<close> \<open>fst ?pr = Inr b\<close> False unf rs
          have mon: "monitor n e cfg w3 = Some (r, w')" by simp
          let ?h3 = "\<lparr>pid = n_spawns w, returncode = None\<rparr>"
          from hd Inr ns2 have sp3: "server_process w3 = Some ?h3"
            and ns3: "n_spawns w3 = Suc (n_spawns w)"
            by simp_all
          from Suc.IH[OF mon sp3] ns3 obtain evs h' where
            ih: "trace w' = trace w3 @ evs" "\<forall>t q. (t, Poll q) \<in> set evs \<longrightarrow> n_spawns w \<le> q"
              "server_process w' = Some h'" "n_spawns w \<le> pid h'" "pid h' < n_spawns w'"
            by auto
          have "trace w' = trace w @ (?pre @ revs @ evs)" using ih(1) revs(1) tr2 by simp
          moreover have "\<forall>t q. (t, Poll q) \<in> set (?pre @ revs @ evs) \<longrightarrow> pid h \<le> q"
            using rnopoll nopoll ih(2) Suc.prems(3) by fastforce
          moreover have "\<exists>h'. server_process w' = Some h' \<and> pid h \<le> pid h' \<and> pid h' < n_spawns w'"
            using ih(3,4,5) Suc.prems(3) by auto
          ultimately show ?thesis by blast
        qed
      qed
    qed
  qed
qed





lemma cleanup_result:
  "fst (cleanup e w) =
     (case server_process w of
        None \<Rightarrow> Inr ()
      | Some h \<Rightarrow>
          if returncode (internal_poll e h (clock w)) \<noteq> None then Inr ()
          else (case signal_result e (n_signals w) of
                  Some x \<Rightarrow> Inl x
                | None \<Rightarrow>
                    if exit_status e (pid h) (clock w + 10000) \<noteq> None then Inr ()
                    else (case signal_result e (Suc (n_signals w)) of
                            Some x \<Rightarrow> Inl x
                          | None \<Rightarrow> Inr ())))"
  by (auto simp: cleanup_def server_running_def poll_def terminate_def send_signal_def wait_def
        kill_def internal_poll_def exit_status_def timeout_expired_def Let_def
      split: option.splits prod.splits sum.splits if_splits)

lemma cleanup_signals:
  "select is_signal (drop (length (trace w)) (trace (snd (cleanup e w)))) =
     (case server_process w of
        None \<Rightarrow> []
      | Some h \<Rightarrow>
          if returncode (internal_poll e h (clock w)) \<noteq> None then []
          else (case signal_result e (n_signals w) of
                  Some x \<Rightarrow> [(clock w, SignalFailed SIGTERM (pid h))]
                | None \<Rightarrow>
                    (clock w, Signal SIGTERM (pid h)) #
                    (if exit_status e (pid h) (clock w + 10000) \<noteq> None then []
                     else [(clock w + 10000,
                            case signal_result e (Suc (n_signals w)) of
                              Some x \<Rightarrow> SignalFailed SIGKILL (pid h)
                            | None \<Rightarrow> Signal SIGKILL (pid h))])))"
  by (auto simp: cleanup_def server_running_def poll_def terminate_def send_signal_def wait_def
        kill_def internal_poll_def exit_status_def timeout_expired_def Let_def
      split: option.splits prod.splits sum.splits if_splits)

lemma session_Some:
  "monitor n e cfg w = Some (r, w1) \<Longrightarrow>
     session n e cfg sid w =
       Some (case fst (cleanup e w1) of
               Inl x \<Rightarrow> Inl x
             | Inr u \<Rightarrow> Inr (case r of
                               Inr u \<Rightarrow> stopped_result w1 sid
                             | Inl x \<Rightarrow> error_result x sid),
             snd (cleanup e w1))"
  by (simp add: session_def Let_def case_prod_beta split: sum.splits)

lemma wait_for_server_default_no_success:
  assumes "fst (wait_for_server_default e cfg T w) = Inr r"
      and "\<forall>k. n_connects w \<le> k \<and> k < n_connects (snd (wait_for_server_default e cfg T w))
               \<longrightarrow> connect_result e k \<noteq> Returns 0"
  shows "\<not> r"
proof (cases "PERSONAPLEX_PORT cfg \<le> 65535")
  case True
  let ?wf = "wait_for_server e T w"
  have "wait_for_server e T w = (fst ?wf, snd ?wf)" by simp
  from wait_for_server_facts[OF this]
  have iff: "fst ?wf \<longleftrightarrow> (\<exists>k. n_connects w \<le> k \<and> k < n_connects (snd ?wf)
                               \<and> connect_result e k = Returns 0)"
    by blast
  from True assms(1) have r: "r = fst ?wf" by (simp add: wait_for_server_default_valid)
  from True have "n_connects (snd (wait_for_server_default e cfg T w)) = n_connects (snd ?wf)"
    by (simp add: wait_for_server_default_valid)
  with assms(2) iff r show ?thesis by auto
next
  case False
  let ?b = "wait_loop_bad_port e (clock w) T (log (WaitForServer T) w)"
  have "?b = (fst ?b, snd ?b)" by simp
  from wait_loop_bad_port_result[OF this] False assms(1) show ?thesis
    by (auto simp: wait_for_server_default_def case_prod_beta split: sum.splits)
qed




section \<open>The readiness prober waits until a connection or the timeout\<close>



section \<open>Restarts are not bounded\<close>





section \<open>What the cleanup lets through\<close>

text \<open>
  C6, as amended. The \<^verbatim>\<open>finally\<close> block catches one failure only, the expiry of the
  bounded 10-second wait, which it answers with \<^verbatim>\<open>kill\<close>; no failure is logged, and
  the two signals are sent outside any \<^verbatim>\<open>try\<close>. For a monitoring loop that ended in state
  \<open>w1\<close>, normally or by an exception:
  \<^item> the session returns its primary result (the stopped result, or the error result
    made from the exception) when the cleanup does not raise, and raises what the cleanup
    raises otherwise, the primary result being lost;
  \<^item> the cleanup does nothing but poll when there is no handle or the child has exited;
  \<^item> otherwise it sends SIGTERM, and an exception of that call propagates;
  \<^item> when the child exits within the 10 seconds, nothing else is sent;
  \<^item> when it does not, SIGKILL is sent 10 seconds later, and an exception of that call
    propagates.

  So the cleanup raises exactly when one of the signals it sends cannot be delivered.
\<close>

theorem cleanup_outcomes:
  assumes "monitor n e cfg w = Some (r, w1)"
  shows "session n e cfg sid w =
           Some (case fst (cleanup e w1) of
                   Inl x \<Rightarrow> Inl x
                 | Inr u \<Rightarrow> Inr (case r of
                                   Inr u \<Rightarrow> stopped_result w1 sid
                                 | Inl x \<Rightarrow> error_result x sid),
                 snd (cleanup e w1))
       \<and> fst (cleanup e w1) =
           (case server_process w1 of
              None \<Rightarrow> Inr ()
            | Some h \<Rightarrow>
                if returncode (internal_poll e h (clock w1)) \<noteq> None then Inr ()
                else (case signal_result e (n_signals w1) of
                        Some x \<Rightarrow> Inl x
                      | None \<Rightarrow>
                          if exit_status e (pid h) (clock w1 + 10000) \<noteq> None then Inr ()
                          else (case signal_result e (Suc (n_signals w1)) of
                                  Some x \<Rightarrow> Inl x
                                | None \<Rightarrow> Inr ())))
       \<and> select is_signal (drop (length (trace w1)) (trace (snd (cleanup e w1)))) =
           (case server_process w1 of
              None \<Rightarrow> []
            | Some h \<Rightarrow>
                if returncode (internal_poll e h (clock w1)) \<noteq> None then []
                else (case signal_result e (n_signals w1) of
                        Some x \<Rightarrow> [(clock w1, SignalFailed SIGTERM (pid h))]
                      | None \<Rightarrow>
                          (clock w1, Signal SIGTERM (pid h)) #
                          (if exit_status e (pid h) (clock w1 + 10000) \<noteq> None then []
                           else [(clock w1 + 10000,
                                  case signal_result e (Suc (n_signals w1)) of
                                    Some x \<Rightarrow> SignalFailed SIGKILL (pid h)
                                  | None \<Rightarrow> Signal SIGKILL (pid h))])))"
  using session_Some[OF assms, of sid] cleanup_result[where e=e and w=w1]
    cleanup_signals[where e=e and w=w1]
  by (rule conjI[OF _ conjI])

text \<open>
  A run in which the wait runs out: the replacement cannot be launched, the loop is left
  by that exception, and the child ignores the termination signals of the restart and
  of the cleanup. The cleanup waits ten seconds, kills it at 20 s, and the error result
  is returned.
\<close>

theorem cleanup_outcomes_witness:
  "\<exists>w1. monitor (Suc 0) env_restart_spawn_fails cfg0 world_running = Some (Inl enomem, w1)
      \<and> session (Suc 0) env_restart_spawn_fails cfg0 ''s1'' world_running =
          Some (Inr [(''status'', PyStr ''error''),
                     (''error'', PyStr ''[Errno 12] Cannot allocate memory''),
                     (''session_id'', PyStr ''s1'')], snd (cleanup env_restart_spawn_fails w1))
      \<and> fst (cleanup env_restart_spawn_fails w1) = Inr ()
      \<and> select is_signal (drop (length (trace w1)) (trace (snd (cleanup env_restart_spawn_fails w1))))
          = [(10000, Signal SIGTERM 0), (20000, Signal SIGKILL 0)]"
proof -
  obtain w1 where
    mon: "monitor (Suc 0) env_restart_spawn_fails cfg0 world_running = Some (Inl enomem, w1)"
    and st: "server_process w1 = Some \<lparr>pid = 0, returncode = None\<rparr>" "clock w1 = 10000"
      "n_signals w1 = 1"
    by (simp add: run_simps env_restart_spawn_fails_def world_running_def)
  have env: "signal_result env_restart_spawn_fails = (\<lambda>k. None)"
    "exit_status env_restart_spawn_fails 0 10000 = None"
    "exit_status env_restart_spawn_fails 0 20000 = None"
    by (simp_all add: env_restart_spawn_fails_def exit_status_def)
  note th = cleanup_outcomes[OF mon, of "''s1''"]
  have c: "fst (cleanup env_restart_spawn_fails w1) = Inr ()"
    using th[THEN conjunct2, THEN conjunct1] st env by (simp add: internal_poll_def)
  have s: "select is_signal (drop (length (trace w1)) (trace (snd (cleanup env_restart_spawn_fails w1))))
          = [(10000, Signal SIGTERM 0), (20000, Signal SIGKILL 0)]"
    using th[THEN conjunct2, THEN conjunct2] st env by (simp add: internal_poll_def)
  have r: "session (Suc 0) env_restart_spawn_fails cfg0 ''s1'' world_running =
          Some (Inr [(''status'', PyStr ''error''),
                     (''error'', PyStr ''[Errno 12] Cannot allocate memory''),
                     (''session_id'', PyStr ''s1'')], snd (cleanup env_restart_spawn_fails w1))"
    using th[THEN conjunct1] c by (simp add: error_result_def enomem_def)
  from mon r c s show ?thesis by blast
qed

text \<open>
  The claim as stated fails. In the first run no signal can be sent: the loop is left by
  the exception of the restart's own \<^verbatim>\<open>terminate\<close>, the primary result is the error
  object, and the \<^verbatim>\<open>terminate\<close> of the cleanup raises again, so the platform gets that
  exception instead. In the second run the termination signals are delivered and
  ignored, the 10-second wait runs out, and it is \<^verbatim>\<open>kill\<close> that raises.
\<close>

lemma run_unkillable:
  "\<exists>w. handler (Suc 0) env_unkillable cfg0 job0 fresh = Some (Inl eperm, w)
     \<and> select is_signal (trace w) =
         [(10000, Signal SIGTERM 0), (10000, Signal SIGTERM 0), (20000, SignalFailed SIGKILL 0)]"
  by (simp add: run_simps env_unkillable_def)

theorem cleanup_raises_counterexample:
  "handler_result (Suc 0) env_unsignalable cfg0 job0 fresh = Some (Inl eperm)
   \<and> handler_result (Suc 0) env_unkillable cfg0 job0 fresh = Some (Inl eperm)
   \<and> select is_signal (handler_events (Suc 0) env_unkillable cfg0 job0 fresh) =
       [(10000, Signal SIGTERM 0), (10000, Signal SIGTERM 0), (20000, SignalFailed SIGKILL 0)]"
proof -
  have a: "handler_result (Suc 0) env_unsignalable cfg0 job0 fresh = Some (Inl eperm)"
    by (simp add: run_simps env_unsignalable_def)
  from run_unkillable a show ?thesis
    by (auto simp: handler_result_def handler_events_def)
qed

section \<open>Cleanup of a process that has exited\<close>

text \<open>
  C7. When the child has already exited (its return code is cached in the handle, or the
  operating system reports the exit at the poll), the cleanup polls once and does nothing
  else: it sends no signal, raises nothing, and leaves the clock and the counters as they
  were. Running it a second time on the same handle only polls again.
\<close>

theorem cleanup_exited_noop:
  assumes "server_process w = Some h" and "returncode (internal_poll e h (clock w)) = Some rc"
  shows "cleanup e w =
           (Inr (), w\<lparr>server_process := Some (h\<lparr>returncode := Some rc\<rparr>),
                      trace := trace w @ [(clock w, Poll (pid h))]\<rparr>)
       \<and> cleanup e (snd (cleanup e w)) =
           (Inr (), w\<lparr>server_process := Some (h\<lparr>returncode := Some rc\<rparr>),
                      trace := trace w @ [(clock w, Poll (pid h)), (clock w, Poll (pid h))]\<rparr>)
       \<and> n_signals (snd (cleanup e (snd (cleanup e w)))) = n_signals w
       \<and> select is_signal (drop (length (trace w)) (trace (snd (cleanup e (snd (cleanup e w)))))) = []"
proof -
  let ?h = "h\<lparr>returncode := Some rc\<rparr>"
  let ?w1 = "w\<lparr>server_process := Some ?h, trace := trace w @ [(clock w, Poll (pid h))]\<rparr>"
  have c1: "cleanup e w = (Inr (), ?w1)"
    using cleanup_exited[OF assms] internal_poll_Some[OF assms(2)] by (simp add: log_def)
  have "server_process ?w1 = Some ?h" "returncode (internal_poll e ?h (clock ?w1)) = Some rc"
    by simp_all
  from cleanup_exited[OF this]
  have c2: "cleanup e ?w1 =
      (Inr (), w\<lparr>server_process := Some ?h,
                 trace := trace w @ [(clock w, Poll (pid h)), (clock w, Poll (pid h))]\<rparr>)"
    by (simp add: log_def)
  from c1 c2 show ?thesis by simp
qed

theorem cleanup_exited_noop_witness:
  "server_process (world_running\<lparr>clock := 20000\<rparr>) = Some \<lparr>pid = 0, returncode = None\<rparr>
   \<and> returncode (internal_poll env_one_failure \<lparr>pid = 0, returncode = None\<rparr>
                   (clock (world_running\<lparr>clock := 20000\<rparr>))) = Some (- 15)
   \<and> cleanup env_one_failure (world_running\<lparr>clock := 20000\<rparr>) =
        (Inr (), \<lparr>clock = 20000, n_spawns = 1, n_connects = 0, n_signals = 0,
                  server_process = Some \<lparr>pid = 0, returncode = Some (- 15)\<rparr>,
                  trace = [(20000, Poll 0)]\<rparr>)
   \<and> cleanup env_one_failure (snd (cleanup env_one_failure (world_running\<lparr>clock := 20000\<rparr>))) =
        (Inr (), \<lparr>clock = 20000, n_spawns = 1, n_connects = 0, n_signals = 0,
                  server_process = Some \<lparr>pid = 0, returncode = Some (- 15)\<rparr>,
                  trace = [(20000, Poll 0), (20000, Poll 0)]\<rparr>)"
proof -
  have sp: "server_process (world_running\<lparr>clock := 20000\<rparr>) = Some \<lparr>pid = 0, returncode = None\<rparr>"
    by (simp add: world_running_def)
  have ex: "returncode (internal_poll env_one_failure \<lparr>pid = 0, returncode = None\<rparr>
                   (clock (world_running\<lparr>clock := 20000\<rparr>))) = Some (- 15)"
    by (simp add: internal_poll_def exit_status_def env_one_failure_def)
  note noop = cleanup_exited_noop[OF sp ex]
  have c1: "cleanup env_one_failure (world_running\<lparr>clock := 20000\<rparr>) =
        (Inr (), \<lparr>clock = 20000, n_spawns = 1, n_connects = 0, n_signals = 0,
                  server_process = Some \<lparr>pid = 0, returncode = Some (- 15)\<rparr>,
                  trace = [(20000, Poll 0)]\<rparr>)"
    using noop[THEN conjunct1] by (simp add: world_running_def)
  have c2: "cleanup env_one_failure (snd (cleanup env_one_failure (world_running\<lparr>clock := 20000\<rparr>))) =
        (Inr (), \<lparr>clock = 20000, n_spawns = 1, n_connects = 0, n_signals = 0,
                  server_process = Some \<lparr>pid = 0, returncode = Some (- 15)\<rparr>,
                  trace = [(20000, Poll 0), (20000, Poll 0)]\<rparr>)"
    using noop[THEN conjunct2, THEN conjunct1] by (simp add: world_running_def)
  from sp ex c1 c2 show ?thesis by blast
qed

section \<open>A child that exits on its own\<close>

text \<open>
  When the poll of the loop condition finds that the child has exited, the loop ends at
  once: no sleep, no probe, no signal, no restart. The handler returns the stopped
  result with the return code that the poll observed and the session id, and the cleanup
  only polls again. This holds at the head of any iteration: \<open>w\<close> is arbitrary.
\<close>

lemma observed_exit_ends_session:
  assumes "server_process w = Some h" and "returncode (internal_poll e h (clock w)) = Some rc"
  shows "session (Suc n) e cfg sid w =
           Some (Inr [(''status'', PyStr ''stopped''), (''reason'', PyStr ''server_exited''),
                      (''return_code'', PyInt rc), (''session_id'', PyStr sid)],
                 w\<lparr>server_process := Some (h\<lparr>returncode := Some rc\<rparr>),
                   trace := trace w @ [(clock w, Poll (pid h)), (clock w, Poll (pid h))]\<rparr>)"
proof -
  let ?h = "h\<lparr>returncode := Some rc\<rparr>"
  let ?w1 = "w\<lparr>server_process := Some ?h, trace := trace w @ [(clock w, Poll (pid h))]\<rparr>"
  have sr: "server_running e w = (False, ?w1)"
    using assms internal_poll_Some[OF assms(2)] by (simp add: server_running_Some log_def)
  then have mon: "monitor (Suc n) e cfg w = Some (Inr (), ?w1)" by (simp add: monitor_Suc Let_def)
  have "server_process ?w1 = Some ?h" "returncode (internal_poll e ?h (clock ?w1)) = Some rc"
    by simp_all
  from cleanup_exited[OF this]
  have cl: "cleanup e ?w1 =
      (Inr (), w\<lparr>server_process := Some ?h,
                 trace := trace w @ [(clock w, Poll (pid h)), (clock w, Poll (pid h))]\<rparr>)"
    by (simp add: log_def)
  show ?thesis
    unfolding session_def mon using cl
    by (simp add: stopped_result_def pyval_of_returncode_def)
qed

lemma run_exit_during_sleep:
  "\<exists>w. handler (Suc (Suc (Suc 0))) env_exit_during_sleep cfg0 job0 fresh =
         Some (Inr [(''status'', PyStr ''stopped''), (''reason'', PyStr ''server_exited''),
                    (''return_code'', PyInt 0), (''session_id'', PyStr ''s1'')], w)
     \<and> select is_spawn (trace w) = [(0, Spawn 0), (10000, Spawn 1)]
     \<and> select is_signal (trace w) = []
     \<and> select is_poll (trace w) = [(0, Poll 0), (10000, Poll 1), (15000, Poll 1), (15000, Poll 1)]
     \<and> select is_failed_probe (trace w) = [(10000, WaitReturned 5 False)]
     \<and> select is_health_check_failed (trace w) =
          [(10000, Print ''[PersonaPlex] Server health check failed, restarting...'')]"
  by (simp add: run_simps env_exit_during_sleep_def)

text \<open>
  C8. The code means to report a child that exits on its own, and does so when the poll
  of the loop condition is what meets the exit. But every iteration sleeps five seconds
  and runs the liveness probe before the next poll. Here the child exits with code 1 at
  2 s, while the loop sleeps; the probe that follows the sleep fails against the dead
  server, and the loop restarts it instead of reporting the exit: after the poll at 0 s
  process 0 is not polled again, no signal is sent (the child is gone), a second process
  is launched at 10 s, and the code 1 of the first child is never returned. The session
  ends only when the replacement exits, with the replacement's code 0.
\<close>

theorem self_exit_is_restarted:
  "proc_exit env_exit_during_sleep 0 = Some (2000, 1)
   \<and> handler_result (Suc (Suc (Suc 0))) env_exit_during_sleep cfg0 job0 fresh =
       Some (Inr [(''status'', PyStr ''stopped''), (''reason'', PyStr ''server_exited''),
                  (''return_code'', PyInt 0), (''session_id'', PyStr ''s1'')])
   \<and> select is_spawn (handler_events (Suc (Suc (Suc 0))) env_exit_during_sleep cfg0 job0 fresh) =
       [(0, Spawn 0), (10000, Spawn 1)]
   \<and> select is_signal (handler_events (Suc (Suc (Suc 0))) env_exit_during_sleep cfg0 job0 fresh) = []
   \<and> select is_poll (handler_events (Suc (Suc (Suc 0))) env_exit_during_sleep cfg0 job0 fresh) =
       [(0, Poll 0), (10000, Poll 1), (15000, Poll 1), (15000, Poll 1)]
   \<and> select is_failed_probe
        (handler_events (Suc (Suc (Suc 0))) env_exit_during_sleep cfg0 job0 fresh) =
       [(10000, WaitReturned 5 False)]"
  using run_exit_during_sleep
  by (auto simp: handler_result_def handler_events_def env_exit_during_sleep_def)

section \<open>A server that never becomes ready\<close>

text \<open>
  C9, as amended. \<open>w1\<close> is the state in which the handler calls
  \<^verbatim>\<open>wait_for_server(timeout=120)\<close>, after a successful launch. When that wait returns
  \<open>False\<close> (by C4: no connection attempt made in the 120-second window succeeded), at
  least 120 seconds have passed, and the handler calls \<^verbatim>\<open>terminate\<close> outside any
  \<^verbatim>\<open>try\<close>, whatever bound the monitoring loop is given, even none: the loop is not
  entered, no progress update is sent and the handle is not polled by the loop. If the
  child has exited by then, no signal is sent; otherwise SIGTERM is sent, and the handler
  does not wait for the child to exit. The handler returns the failure object with the
  timeout message unless sending the signal raises; then that exception leaves the
  handler and nothing is returned.
\<close>

theorem startup_timeout:
  fixes e cfg j w
  defines "sid \<equiv> (case input_session_id j of Some s \<Rightarrow> s | None \<Rightarrow> job_id j)"
  defines "w1 \<equiv> print (''[PersonaPlex] Waiting for server on port ''
                         @ str_nat (PERSONAPLEX_PORT cfg) @ ''...'')
                  (snd (start_personaplex_server e cfg
                         (print (''[PersonaPlex] Starting server for session: '' @ sid) w)))"
  defines "w2 \<equiv> snd (wait_for_server_default e cfg 120 w1)"
  assumes spawn: "spawn_result e (n_spawns w) = None"
      and wait: "fst (wait_for_server_default e cfg 120 w1) = Inr False"
  shows "handler_result n e cfg j w =
           Some (if exit_status e (n_spawns w) (clock w2) = None
                 then (case signal_result e (n_signals w) of
                         None \<Rightarrow> Inr [(''error'', PyStr ''PersonaPlex server failed to start within timeout'')]
                       | Some x \<Rightarrow> Inl x)
                 else Inr [(''error'', PyStr ''PersonaPlex server failed to start within timeout'')])
       \<and> (\<exists>evs. handler_events n e cfg j w = trace w @ evs
              \<and> select is_progress evs = [] \<and> select is_poll evs = []
              \<and> select is_spawn evs = [(clock w, Spawn (n_spawns w))]
              \<and> select is_wait_for_server evs = [(clock w, WaitForServer 120)]
              \<and> select is_signal evs =
                  (if exit_status e (n_spawns w) (clock w2) = None
                   then [(clock w2, case signal_result e (n_signals w) of
                                      None \<Rightarrow> Signal SIGTERM (n_spawns w)
                                    | Some x \<Rightarrow> SignalFailed SIGTERM (n_spawns w))]
                   else []))
       \<and> clock w + 120000 \<le> clock w2"
proof -
  let ?p = "\<lparr>pid = n_spawns w, returncode = None\<rparr>"
  let ?D = "Inr [(''error'', PyStr ''PersonaPlex server failed to start within timeout'')] :: exn + pydict"
  let ?R = "if exit_status e (n_spawns w) (clock w2) = None
            then (case signal_result e (n_signals w) of None \<Rightarrow> ?D | Some x \<Rightarrow> Inl x)
            else ?D"
  have sp2: "server_process w2 = Some ?p"
    using spawn by (simp add: w2_def w1_def start_server_process)
  have ns2: "n_signals w2 = n_signals w" by (simp add: w2_def w1_def)
  have ip: "internal_poll e ?p (clock w2) = ?p\<lparr>returncode := exit_status e (n_spawns w) (clock w2)\<rparr>"
    by (simp add: internal_poll_def)
  have tres: "fst (terminate e w2) =
     (if exit_status e (n_spawns w) (clock w2) = None
      then (case signal_result e (n_signals w) of None \<Rightarrow> Inr () | Some x \<Rightarrow> Inl x)
      else Inr ())"
    using sp2 ns2 by (simp add: terminate_Some send_signal_result ip)
  have h: "handler n e cfg j w = Some (?R, snd (terminate e w2))"
    using handler_spawned[OF spawn, of n cfg j] wait tres
    unfolding sid_def[symmetric] w1_def[symmetric] w2_def[symmetric]
    by (simp add: start_timeout_result_def split: option.splits sum.splits)
  have res: "handler_result n e cfg j w = Some ?R"
    using h by (simp add: handler_result_def)
  from wait_for_server_default_selected[of e cfg 120 w1] obtain pevs where
    pevs: "trace w2 = trace w1 @ pevs" "\<forall>x \<in> set pevs. is_probe (snd x)"
      "select is_wait_for_server pevs = [(clock w1, WaitForServer 120)]"
    by (auto simp: w2_def)
  have p0: "select is_progress pevs = []" "select is_poll pevs = []" "select is_spawn pevs = []"
    "select is_signal pevs = []"
    using pevs(2) by (auto intro!: select_none)
  have c1: "clock w1 = clock w" by (simp add: w1_def)
  have t1: "trace w1 = trace w @
      [(clock w, Print (''[PersonaPlex] Starting server for session: '' @ sid)),
       (clock w, Spawn (n_spawns w)),
       (clock w, Print (''[PersonaPlex] Waiting for server on port ''
                         @ str_nat (PERSONAPLEX_PORT cfg) @ ''...''))]"
    using spawn by (simp add: w1_def start_trace)
  let ?sevs = "if exit_status e (n_spawns w) (clock w2) = None
               then [(clock w2, case signal_result e (n_signals w) of
                                  None \<Rightarrow> Signal SIGTERM (n_spawns w)
                                | Some x \<Rightarrow> SignalFailed SIGTERM (n_spawns w))]
               else []"
  have t3: "trace (snd (terminate e w2)) = trace w2 @ ?sevs"
    using sp2 ns2 by (auto simp: terminate_Some send_signal_trace ip split: option.splits)
  let ?evs = "[(clock w, Print (''[PersonaPlex] Starting server for session: '' @ sid)),
       (clock w, Spawn (n_spawns w)),
       (clock w, Print (''[PersonaPlex] Waiting for server on port ''
                         @ str_nat (PERSONAPLEX_PORT cfg) @ ''...''))] @ pevs @ ?sevs"
  have ev: "handler_events n e cfg j w = trace w @ ?evs"
    using h t3 pevs(1) t1 by (simp add: handler_events_def)
  have sel: "select is_progress ?evs = []" "select is_poll ?evs = []"
    "select is_spawn ?evs = [(clock w, Spawn (n_spawns w))]"
    "select is_wait_for_server ?evs = [(clock w, WaitForServer 120)]"
    "select is_signal ?evs = ?sevs"
    using p0 pevs(3) c1 by (simp_all split: option.splits)
  have clk: "clock w + 120000 \<le> clock w2"
    using wait_for_server_default_false_expired[OF wait] c1 by (simp add: w2_def)
  from res ev sel clk show ?thesis by blast
qed

theorem startup_timeout_witness:
  "spawn_result env_never_ready (n_spawns fresh) = None
   \<and> fst (wait_for_server_default env_never_ready cfg0 120
            (print (''[PersonaPlex] Waiting for server on port ''
                    @ str_nat (PERSONAPLEX_PORT cfg0) @ ''...'')
               (snd (start_personaplex_server env_never_ready cfg0
                      (print (''[PersonaPlex] Starting server for session: ''
                              @ (case input_session_id job0 of Some s \<Rightarrow> s | None \<Rightarrow> job_id job0))
                         fresh))))) = Inr False
   \<and> handler_result 0 env_never_ready cfg0 job0 fresh =
        Some (Inr [(''error'', PyStr ''PersonaPlex server failed to start within timeout'')])"
proof -
  have spawn: "spawn_result env_never_ready (n_spawns fresh) = None"
    by (simp add: env_never_ready_def)
  have wait: "fst (wait_for_server_default env_never_ready cfg0 120
            (print (''[PersonaPlex] Waiting for server on port ''
                    @ str_nat (PERSONAPLEX_PORT cfg0) @ ''...'')
               (snd (start_personaplex_server env_never_ready cfg0
                      (print (''[PersonaPlex] Starting server for session: ''
                              @ (case input_session_id job0 of Some s \<Rightarrow> s | None \<Rightarrow> job_id job0))
                         fresh))))) = Inr False"
    by (simp add: run_simps env_never_ready_def)
  have "handler_result 0 env_never_ready cfg0 job0 fresh =
        Some (Inr [(''error'', PyStr ''PersonaPlex server failed to start within timeout'')])"
    using startup_timeout[OF spawn wait, of 0, THEN conjunct1]
    by (simp add: env_never_ready_def exit_status_def fresh_def)
  with spawn wait show ?thesis by blast
qed

text \<open>
  The claim as stated fails when the signal cannot be sent: the port never opens, the
  handler gives up after 120 seconds, and \<^verbatim>\<open>terminate\<close> raises
  \<^verbatim>\<open>PermissionError\<close>. No failure object is returned, and the child is still running.
\<close>

lemma run_never_ready_unsignalable:
  "\<exists>w. handler 0 env_never_ready_unsignalable cfg0 job0 fresh = Some (Inl eperm, w)
     \<and> select is_signal (trace w) = [(120000, SignalFailed SIGTERM 0)]
     \<and> select is_spawn (trace w) = [(0, Spawn 0)]"
  by (simp add: run_simps env_never_ready_unsignalable_def)

theorem startup_timeout_raises_counterexample:
  "handler_result 0 env_never_ready_unsignalable cfg0 job0 fresh = Some (Inl eperm)
   \<and> select is_signal (handler_events 0 env_never_ready_unsignalable cfg0 job0 fresh) =
       [(120000, SignalFailed SIGTERM 0)]
   \<and> proc_exit env_never_ready_unsignalable 0 = None"
  using run_never_ready_unsignalable
  by (auto simp: handler_result_def handler_events_def env_never_ready_unsignalable_def)

section \<open>A replacement that cannot be launched\<close>

text \<open>
  C10, as amended. At the head of an iteration the child runs, the liveness probe then
  fails, the termination signal of the restart is delivered, and the \<^verbatim>\<open>Popen\<close> call
  of the restart raises \<open>x\<close>. The loop is left by \<open>x\<close> in a state \<open>wx\<close>, the
  \<^verbatim>\<open>except Exception\<close> clause turns \<open>x\<close> into the error result with \<^verbatim>\<open>str(x)\<close> and
  the session id, and the cleanup runs afterwards on \<open>wx\<close>, still holding the old
  handle. The session ends with that error result when the cleanup does not raise, as
  is the case when every signal can be delivered. When the old child is still running
  and the \<^verbatim>\<open>terminate\<close> of the cleanup raises \<open>y\<close>, the session ends with \<open>y\<close>
  instead of the error result. The same launch failure at the initial launch gives the
  other shape: a dictionary with the single key \<^verbatim>\<open>error\<close>.
\<close>

theorem restart_spawn_failure:
  assumes alive: "server_process w = Some h" "returncode (internal_poll e h (clock w)) = None"
      and probe: "fst (wait_for_server_default e cfg 5 (sleep 5 (log (Poll (pid h)) w))) = Inr False"
      and sig0: "signal_result e (n_signals w) = None"
      and spawn: "spawn_result e (n_spawns w) = Some x"
  shows "(\<exists>wx. monitor (Suc n) e cfg w = Some (Inl x, wx)
            \<and> session (Suc n) e cfg sid w =
                Some (case fst (cleanup e wx) of
                        Inl y \<Rightarrow> Inl y
                      | Inr u \<Rightarrow> Inr [(''status'', PyStr ''error''), (''error'', PyStr (str_exn x)),
                                        (''session_id'', PyStr sid)],
                      snd (cleanup e wx))
            \<and> ((\<forall>k. signal_result e k = None) \<longrightarrow> fst (cleanup e wx) = Inr ())
            \<and> (\<forall>y. exit_status e (pid h) (clock wx) = None
                     \<and> signal_result e (Suc (n_signals w)) = Some y
                   \<longrightarrow> fst (cleanup e wx) = Inl y))
       \<and> handler_result m e cfg j w =
           Some (Inr [(''error'', PyStr (''Failed to start PersonaPlex server: '' @ str_exn x))])"
proof -
  let ?w1 = "log (Poll (pid h)) w"
  let ?w2 = "snd (wait_for_server_default e cfg 5 (sleep 5 ?w1))"
  let ?s = "send_signal e SIGTERM h
              (print ''[PersonaPlex] Server health check failed, restarting...'' ?w2)"
  let ?wx = "snd (start_personaplex_server e cfg (snd ?s))"
  have rh: "returncode h = None" using alive(2) by (simp add: internal_poll_None_iff)
  have sr: "server_running e w = (True, ?w1)" using alive by (rule server_running_alive)
  have sp2: "server_process ?w2 = Some h" using alive(1) by simp
  have ns2: "n_spawns ?w2 = n_spawns w" "n_signals ?w2 = n_signals w" by simp_all
  have s_ok: "fst ?s = Inr ()" using sig0 ns2 by (simp add: send_signal_result)
  have rs: "restart e cfg ?w2 = (Inl x, ?wx)"
    using restart_Some[OF sp2, of e cfg] s_ok spawn ns2 by (simp add: Let_def)
  have mon: "monitor (Suc n) e cfg w = Some (Inl x, ?wx)"
    using sr probe rs by (simp add: monitor_Suc Let_def)
  have ses: "session (Suc n) e cfg sid w =
                Some (case fst (cleanup e ?wx) of
                        Inl y \<Rightarrow> Inl y
                      | Inr u \<Rightarrow> Inr [(''status'', PyStr ''error''), (''error'', PyStr (str_exn x)),
                                        (''session_id'', PyStr sid)],
                      snd (cleanup e ?wx))"
    using session_Some[OF mon, of sid] by (simp add: error_result_def split: sum.splits)
  have cl: "(\<forall>k. signal_result e k = None) \<longrightarrow> fst (cleanup e ?wx) = Inr ()"
    by (simp add: cleanup_no_raise)
  have spx: "server_process ?wx = Some (internal_poll e h (clock ?w2))"
    using spawn ns2 by (simp add: start_server_process)
  have ckx: "clock ?wx = clock ?w2" by simp
  have nsx: "n_signals ?wx =
      (if returncode (internal_poll e h (clock ?w2)) = None then Suc (n_signals w) else n_signals w)"
    using ns2 by (simp add: send_signal_n_signals)
  have cr: "\<forall>y. exit_status e (pid h) (clock ?wx) = None
                 \<and> signal_result e (Suc (n_signals w)) = Some y
               \<longrightarrow> fst (cleanup e ?wx) = Inl y"
  proof (intro allI impI)
    fix y
    assume a: "exit_status e (pid h) (clock ?wx) = None
                 \<and> signal_result e (Suc (n_signals w)) = Some y"
    then have run: "returncode (internal_poll e h (clock ?w2)) = None"
      using rh ckx by (simp add: internal_poll_None_iff)
    with nsx have nsx': "n_signals ?wx = Suc (n_signals w)" by simp
    show "fst (cleanup e ?wx) = Inl y"
      using a run nsx' spx ckx by (simp add: cleanup_result[where w="?wx"])
  qed
  from mon ses cl cr have
    "\<exists>wx. monitor (Suc n) e cfg w = Some (Inl x, wx)
            \<and> session (Suc n) e cfg sid w =
                Some (case fst (cleanup e wx) of
                        Inl y \<Rightarrow> Inl y
                      | Inr u \<Rightarrow> Inr [(''status'', PyStr ''error''), (''error'', PyStr (str_exn x)),
                                        (''session_id'', PyStr sid)],
                      snd (cleanup e wx))
            \<and> ((\<forall>k. signal_result e k = None) \<longrightarrow> fst (cleanup e wx) = Inr ())
            \<and> (\<forall>y. exit_status e (pid h) (clock wx) = None
                     \<and> signal_result e (Suc (n_signals w)) = Some y
                   \<longrightarrow> fst (cleanup e wx) = Inl y)"
    by blast
  with handler_start_failed[OF spawn] show ?thesis by blast
qed

theorem restart_spawn_failure_witness:
  "server_process world_running = Some \<lparr>pid = 0, returncode = None\<rparr>
   \<and> returncode (internal_poll env_restart_spawn_fails \<lparr>pid = 0, returncode = None\<rparr>
                   (clock world_running)) = None
   \<and> fst (wait_for_server_default env_restart_spawn_fails cfg0 5
             (sleep 5 (log (Poll (pid \<lparr>pid = 0, returncode = None\<rparr>)) world_running))) = Inr False
   \<and> signal_result env_restart_spawn_fails (n_signals world_running) = None
   \<and> spawn_result env_restart_spawn_fails (n_spawns world_running) = Some enomem
   \<and> (\<forall>k. signal_result env_restart_spawn_fails k = None)
   \<and> map_option fst (session (Suc 0) env_restart_spawn_fails cfg0 ''s1'' world_running) =
        Some (Inr [(''status'', PyStr ''error''),
                   (''error'', PyStr ''[Errno 12] Cannot allocate memory''),
                   (''session_id'', PyStr ''s1'')])
   \<and> handler_result 0 env_restart_spawn_fails cfg0 job0 world_running =
        Some (Inr [(''error'', PyStr ''Failed to start PersonaPlex server: [Errno 12] Cannot allocate memory'')])"
proof -
  have a1: "server_process world_running = Some \<lparr>pid = 0, returncode = None\<rparr>"
    by (simp add: world_running_def)
  have a2: "returncode (internal_poll env_restart_spawn_fails \<lparr>pid = 0, returncode = None\<rparr>
                   (clock world_running)) = None"
    by (simp add: internal_poll_def exit_status_def env_restart_spawn_fails_def world_running_def)
  have a3: "fst (wait_for_server_default env_restart_spawn_fails cfg0 5
             (sleep 5 (log (Poll (pid \<lparr>pid = 0, returncode = None\<rparr>)) world_running))) = Inr False"
    by (simp add: run_simps env_restart_spawn_fails_def world_running_def)
  have a4: "signal_result env_restart_spawn_fails (n_signals world_running) = None"
    by (simp add: env_restart_spawn_fails_def)
  have a5: "spawn_result env_restart_spawn_fails (n_spawns world_running) = Some enomem"
    by (simp add: env_restart_spawn_fails_def world_running_def)
  have a6: "\<forall>k. signal_result env_restart_spawn_fails k = None"
    by (simp add: env_restart_spawn_fails_def)
  from restart_spawn_failure[OF a1 a2 a3 a4 a5, of 0 "''s1''" 0 job0] a1 a2 a3 a4 a5 a6
  show ?thesis by (auto simp: enomem_def)
qed

text \<open>
  The claim as stated fails when the cleanup cannot signal the old child: the restart's
  signal is delivered, the launch of the replacement raises and is caught, and the
  \<^verbatim>\<open>terminate\<close> of the cleanup raises \<^verbatim>\<open>PermissionError\<close>. The session ends with that
  exception, not with the error result.
\<close>

lemma run_restart_spawn_fails_unsignalable:
  "\<exists>w. handler (Suc 0) env_restart_spawn_fails_unsignalable cfg0 job0 fresh = Some (Inl eperm, w)
     \<and> select is_spawn (trace w) = [(0, Spawn 0)]
     \<and> select (\<lambda>ev. ev = SpawnFailed) (trace w) = [(10000, SpawnFailed)]
     \<and> select is_signal (trace w) = [(10000, Signal SIGTERM 0), (10000, SignalFailed SIGTERM 0)]"
  by (simp add: run_simps env_restart_spawn_fails_unsignalable_def)

theorem restart_spawn_failure_counterexample:
  "handler_result (Suc 0) env_restart_spawn_fails_unsignalable cfg0 job0 fresh = Some (Inl eperm)
   \<and> select is_spawn (handler_events (Suc 0) env_restart_spawn_fails_unsignalable cfg0 job0 fresh) =
       [(0, Spawn 0)]
   \<and> select (\<lambda>ev. ev = SpawnFailed)
        (handler_events (Suc 0) env_restart_spawn_fails_unsignalable cfg0 job0 fresh) =
       [(10000, SpawnFailed)]
   \<and> select is_signal (handler_events (Suc 0) env_restart_spawn_fails_unsignalable cfg0 job0 fresh) =
       [(10000, Signal SIGTERM 0), (10000, SignalFailed SIGTERM 0)]"
  using run_restart_spawn_fails_unsignalable
  by (auto simp: handler_result_def handler_events_def)

section \<open>The readiness wait of a restart\<close>

text \<open>
  C2, as amended. A restart that gets as far as its readiness wait calls
  \<^verbatim>\<open>wait_for_server(timeout=60)\<close> right after the launch: the window is 60 seconds,
  half of the 120 seconds of the initial wait. No connection attempt of that wait starts
  60 seconds or more after the launch, and when none of its attempts succeeds the wait
  ends once 60 seconds have passed.
\<close>

theorem restart_waits_60_seconds:
  assumes "restart e cfg w = (Inr (), w')"
  shows "\<exists>pre post.
           trace w' = trace w @ pre @ [(clock w, Spawn (n_spawns w)), (clock w, WaitForServer 60)] @ post
         \<and> select is_wait_for_server pre = [] \<and> select is_wait_for_server post = []
         \<and> (\<forall>t k. (t, Connect k) \<in> set post \<longrightarrow> int t - int (clock w) < 60000)
         \<and> ((\<forall>k. n_connects w \<le> k \<and> k < n_connects w' \<longrightarrow> connect_result e k \<noteq> Returns 0)
              \<longrightarrow> clock w + 60000 \<le> clock w')"
proof (cases "server_process w")
  case None
  with assms show ?thesis by (simp add: restart_None)
next
  case (Some h)
  let ?m = "''[PersonaPlex] Server health check failed, restarting...''"
  let ?s = "send_signal e SIGTERM h (print ?m w)"
  let ?w2 = "snd (start_personaplex_server e cfg (snd ?s))"
  let ?rd = "wait_for_server_default e cfg 60 ?w2"
  note unf = restart_Some[OF Some, of e cfg, unfolded Let_def]
  from assms unf have ok: "fst ?s = Inr ()"
    by (cases "fst ?s") simp_all
  from assms unf ok have sp: "spawn_result e (n_spawns w) = None"
    by (cases "spawn_result e (n_spawns w)") simp_all
  from assms unf ok sp obtain r where rd: "fst ?rd = Inr r"
    by (cases "fst ?rd") simp_all
  from assms unf ok sp rd have w': "w' = snd ?rd" by simp
  obtain sevs where sevs: "trace (snd ?s) = trace w @ (clock w, Print ?m) # sevs"
    "\<forall>x \<in> set sevs. is_signal (snd x)"
    by (auto simp: send_signal_trace split: option.splits)
  have c2: "clock ?w2 = clock w" "n_connects ?w2 = n_connects w" by simp_all
  have t2: "trace ?w2 = trace w @ ((clock w, Print ?m) # sevs) @ [(clock w, Spawn (n_spawns w))]"
    using sevs(1) sp by (simp add: start_trace)
  from wait_for_server_default_events[of e cfg 60 ?w2] rd w' c2 obtain pevs where
    pevs: "trace w' = trace ?w2 @ (clock w, WaitForServer 60) # pevs @ [(clock w', WaitReturned 60 r)]"
      "\<forall>(t, ev) \<in> set pevs. ev = Sleep 1 \<or> (\<exists>k. ev = Connect k \<and> int t - int (clock w) < 1000 * 60)"
    by auto
  let ?post = "pevs @ [(clock w', WaitReturned 60 r)]"
  have tr: "trace w' = trace w @ ((clock w, Print ?m) # sevs)
               @ [(clock w, Spawn (n_spawns w)), (clock w, WaitForServer 60)] @ ?post"
    using pevs(1) t2 by simp
  have s1: "select is_wait_for_server ((clock w, Print ?m) # sevs) = []"
    using sevs(2) by (auto intro!: select_none)
  have "select is_wait_for_server pevs = []"
    using pevs(2) by (intro select_none) fastforce
  then have s2: "select is_wait_for_server ?post = []" by simp
  have inwin: "\<forall>t k. (t, Connect k) \<in> set ?post \<longrightarrow> int t - int (clock w) < 60000"
    using pevs(2) by fastforce
  have late: "(\<forall>k. n_connects w \<le> k \<and> k < n_connects w' \<longrightarrow> connect_result e k \<noteq> Returns 0)
              \<longrightarrow> clock w + 60000 \<le> clock w'"
  proof
    assume nev: "\<forall>k. n_connects w \<le> k \<and> k < n_connects w' \<longrightarrow> connect_result e k \<noteq> Returns 0"
    with w' c2(2) have "\<forall>k. n_connects ?w2 \<le> k \<and> k < n_connects (snd ?rd)
               \<longrightarrow> connect_result e k \<noteq> Returns 0" by simp
    from wait_for_server_default_no_success[OF rd this] rd have "fst ?rd = Inr False" by simp
    from wait_for_server_default_false_expired[OF this] w' c2(1)
    show "clock w + 60000 \<le> clock w'" by simp
  qed
  from tr s1 s2 inwin late show ?thesis by blast
qed

theorem restart_waits_60_seconds_witness:
  "restart env_one_failure cfg0 world_unhealthy = (Inr (), world_restarted)
   \<and> (\<exists>pre post.
         trace world_restarted = trace world_unhealthy @ pre
            @ [(clock world_unhealthy, Spawn (n_spawns world_unhealthy)),
               (clock world_unhealthy, WaitForServer 60)] @ post
         \<and> select is_wait_for_server pre = [] \<and> select is_wait_for_server post = [])"
proof -
  have run: "restart env_one_failure cfg0 world_unhealthy = (Inr (), world_restarted)"
    by (simp add: run_simps env_one_failure_def world_unhealthy_def world_restarted_def)
  from restart_waits_60_seconds[OF run] run show ?thesis by blast
qed

text \<open>
  The claim as stated fails: after a failed liveness probe at 10 s the replacement never
  answers, and the loop polls it again at 70 s, 60 seconds after the launch and not 120.
  The three waits of the session have the timeouts 120 (start), 5 (liveness) and 60
  (restart).
\<close>

lemma run_restart_never_ready:
  "\<exists>w. handler (Suc (Suc 0)) env_restart_never_ready cfg0 job0 fresh =
         Some (Inr [(''status'', PyStr ''stopped''), (''reason'', PyStr ''server_exited''),
                    (''return_code'', PyInt 1), (''session_id'', PyStr ''s1'')], w)
     \<and> select is_wait_for_server (trace w) =
         [(0, WaitForServer 120), (5000, WaitForServer 5), (10000, WaitForServer 60)]
     \<and> select is_spawn (trace w) = [(0, Spawn 0), (10000, Spawn 1)]
     \<and> select is_poll (trace w) = [(0, Poll 0), (70000, Poll 1), (70000, Poll 1)]"
  by (simp add: run_simps env_restart_never_ready_def)

theorem restart_wait_60_counterexample:
  "select is_wait_for_server
     (handler_events (Suc (Suc 0)) env_restart_never_ready cfg0 job0 fresh) =
       [(0, WaitForServer 120), (5000, WaitForServer 5), (10000, WaitForServer 60)]
   \<and> select is_spawn (handler_events (Suc (Suc 0)) env_restart_never_ready cfg0 job0 fresh) =
       [(0, Spawn 0), (10000, Spawn 1)]
   \<and> select is_poll (handler_events (Suc (Suc 0)) env_restart_never_ready cfg0 job0 fresh) =
       [(0, Poll 0), (70000, Poll 1), (70000, Poll 1)]"
  using run_restart_never_ready by (auto simp: handler_events_def)

section \<open>Two children at once\<close>

text \<open>
  What does hold after a restart that completes: the global is bound to exactly one
  handle, that of the replacement, whose process id is new; and for the rest of the
  monitoring loop no poll is made on the process id of the handle that was replaced.
\<close>

lemma old_handle_not_polled_again:
  assumes "server_process w = Some h" and "pid h < n_spawns w"
      and "restart e cfg w = (Inr (), w1)" and "monitor n e cfg w1 = Some (r, w')"
  shows "server_process w1 = Some \<lparr>pid = n_spawns w, returncode = None\<rparr>
       \<and> (\<exists>evs. trace w' = trace w1 @ evs \<and> (\<forall>t q. (t, Poll q) \<in> set evs \<longrightarrow> q \<noteq> pid h))"
proof -
  let ?h1 = "\<lparr>pid = n_spawns w, returncode = None\<rparr>"
  from restart_handle[OF assms(1,3)]
  have sp1: "server_process w1 = Some ?h1" and ns1: "n_spawns w1 = Suc (n_spawns w)"
    by simp_all
  have "pid ?h1 < n_spawns w1" using ns1 by simp
  from monitor_polls[OF assms(4) sp1 this] obtain evs where
    "trace w' = trace w1 @ evs" "\<forall>t q. (t, Poll q) \<in> set evs \<longrightarrow> n_spawns w \<le> q"
    by auto
  with assms(2) have "trace w' = trace w1 @ evs \<and> (\<forall>t q. (t, Poll q) \<in> set evs \<longrightarrow> q \<noteq> pid h)"
    by fastforce
  with sp1 show ?thesis by blast
qed

lemma run_slow_shutdown:
  "\<exists>w. handler (Suc (Suc (Suc 0))) env_slow_shutdown cfg0 job0 fresh =
         Some (Inr [(''status'', PyStr ''stopped''), (''reason'', PyStr ''server_exited''),
                    (''return_code'', PyInt 0), (''session_id'', PyStr ''s1'')], w)
     \<and> select is_spawn (trace w) = [(0, Spawn 0), (10000, Spawn 1)]
     \<and> select is_signal (trace w) = [(10000, Signal SIGTERM 0)]
     \<and> select is_poll (trace w) = [(0, Poll 0), (10000, Poll 1), (15000, Poll 1), (15000, Poll 1)]
     \<and> live_at env_slow_shutdown (trace w) 12000 = [0, 1]"
  by (simp add: run_simps env_slow_shutdown_def live_at_def)

text \<open>
  C3. The restart sends SIGTERM to the old process and launches the replacement at once:
  unlike the cleanup, it neither waits for the old process to exit nor kills it. Here
  the old process needs three seconds to shut down, so at 12 s both processes are alive.
  The old handle is dropped when the global is reassigned: process 0 is not polled,
  waited for or signalled again.
\<close>

theorem two_children_live_after_restart:
  "select is_spawn (handler_events (Suc (Suc (Suc 0))) env_slow_shutdown cfg0 job0 fresh) =
     [(0, Spawn 0), (10000, Spawn 1)]
   \<and> select is_signal (handler_events (Suc (Suc (Suc 0))) env_slow_shutdown cfg0 job0 fresh) =
     [(10000, Signal SIGTERM 0)]
   \<and> select is_poll (handler_events (Suc (Suc (Suc 0))) env_slow_shutdown cfg0 job0 fresh) =
     [(0, Poll 0), (10000, Poll 1), (15000, Poll 1), (15000, Poll 1)]
   \<and> live_at env_slow_shutdown
        (handler_events (Suc (Suc (Suc 0))) env_slow_shutdown cfg0 job0 fresh) 12000 = [0, 1]"
  using run_slow_shutdown by (auto simp: handler_events_def)

section \<open>What the handler returns\<close>




end
